theory Spec2Isabelle
  imports Complex_Main "HOL-Library.Char_ord" "HOL-Library.List_Lexorder" "HOL-Library.AList"
    "HOL-Library.Word"
begin

section \<open>pyseer: variant ingestion, filtering and result aggregation\<close>

text \<open>
  A shallow embedding of \<^verbatim>\<open>pyseer/input.py\<close>, \<^verbatim>\<open>pyseer/classes.py\<close> and the
  association loop of \<^verbatim>\<open>pyseer/__main__.py\<close>.

  Conventions. Python \<^verbatim>\<open>str\<close> is \<^typ>\<open>string\<close> (ASCII), Python \<^verbatim>\<open>int\<close> is \<^typ>\<open>int\<close>,
  a Python \<^verbatim>\<open>float\<close> is the real number it denotes (comparisons of floats are exact, so
  \<^verbatim>\<open><\<close> and \<^verbatim>\<open><=\<close> are those of \<^typ>\<open>real\<close>; NaN and the rounding of a division are outside
  the model). An exception is a value \<open>Inl e\<close> of a sum type. A \<^verbatim>\<open>dict\<close> is an association
  list, a \<^verbatim>\<open>set\<close> of sample names is a \<^typ>\<open>string set\<close>, and \<^verbatim>\<open>sorted\<close> of such a set is
  \<^const>\<open>sorted_list_of_set\<close> for the lexicographic order of strings by character code.

  Functions of modules outside these files (\<^verbatim>\<open>pyseer.model\<close>, \<^verbatim>\<open>pyseer.lmm\<close>,
  \<^verbatim>\<open>pyseer.utils\<close>) and of libraries (the digest, the encoding, the indexed lookup of the
  variant-call file, the process pool) are parameters of the functions that call them,
  under the names the code gives them. A function that reads input returns the input as
  it leaves it. The result of a loop is an error or its final state; what a run printed
  before an exception is not part of the result.
\<close>

datatype error = IndexError | ZeroDivisionError | TypeError | UnboundLocalError

subsection \<open>The string methods the readers use\<close>

text \<open>\<^verbatim>\<open>str.isspace\<close> on the ASCII range: tab, LF, VT, FF, CR, FS, GS, RS, US and space.\<close>

definition isspace :: "char \<Rightarrow> bool" where
  "isspace c = (c \<in> set [CHR 0x09, CHR 0x0A, CHR 0x0B, CHR 0x0C, CHR 0x0D,
                          CHR 0x1C, CHR 0x1D, CHR 0x1E, CHR 0x1F, CHR 0x20])"

text \<open>\<^verbatim>\<open>s.split()\<close>: the maximal runs of non-whitespace characters, in order.\<close>

fun split_ws :: "string \<Rightarrow> string \<Rightarrow> string list" where
  "split_ws cur [] = (if cur = [] then [] else [cur])"
| "split_ws cur (c # cs) =
     (if isspace c then (if cur = [] then split_ws [] cs else cur # split_ws [] cs)
      else split_ws (cur @ [c]) cs)"

definition py_split :: "string \<Rightarrow> string list" where
  "py_split s = split_ws [] s"

text \<open>\<^verbatim>\<open>s.split(sep)\<close> for a one-character separator: empty pieces are kept.\<close>

fun split_sep :: "char \<Rightarrow> string \<Rightarrow> string \<Rightarrow> string list" where
  "split_sep sep cur [] = [cur]"
| "split_sep sep cur (c # cs) =
     (if c = sep then cur # split_sep sep [] cs else split_sep sep (cur @ [c]) cs)"

definition py_split_on :: "char \<Rightarrow> string \<Rightarrow> string list" where
  "py_split_on sep s = split_sep sep [] s"

definition lstrip :: "string \<Rightarrow> string" where
  "lstrip s = dropWhile isspace s"

definition rstrip :: "string \<Rightarrow> string" where
  "rstrip s = rev (dropWhile isspace (rev s))"

text \<open>\<^verbatim>\<open>x.split(':')[0]\<close>: the text before the first colon, all of \<open>x\<close> when it has none.\<close>

definition before_colon :: "string \<Rightarrow> string" where
  "before_colon x = takeWhile (\<lambda>c. c \<noteq> CHR '':'') x"

text \<open>\<^verbatim>\<open>xs[i]\<close> for a non-negative literal index: IndexError out of range.\<close>

definition py_index :: "'a list \<Rightarrow> nat \<Rightarrow> error + 'a" where
  "py_index xs i = (if i < length xs then Inr (xs ! i) else Inl IndexError)"

text \<open>\<^verbatim>\<open>str(n)\<close> for an integer, and \<^verbatim>\<open>int(s)\<close> for a string of decimal digits.\<close>

definition digit_char :: "nat \<Rightarrow> char" where
  "digit_char n = char_of (48 + n)"

fun str_nat :: "nat \<Rightarrow> string" where
  "str_nat n = (if n < 10 then [digit_char n] else str_nat (n div 10) @ [digit_char (n mod 10)])"

definition str_int :: "int \<Rightarrow> string" where
  "str_int i = (if i < 0 then CHR ''-'' # str_nat (nat (- i)) else str_nat (nat i))"

definition isdigit :: "char \<Rightarrow> bool" where
  "isdigit c = (48 \<le> (of_char c :: nat) \<and> (of_char c :: nat) \<le> 57)"

definition int_of_digits :: "string \<Rightarrow> int" where
  "int_of_digits s = foldl (\<lambda>a c. 10 * a + (int (of_char c) - 48)) 0 s"

text \<open>\<^verbatim>\<open>sep.join(xs)\<close>.\<close>

fun join :: "string \<Rightarrow> string list \<Rightarrow> string" where
  "join sep [] = []"
| "join sep [x] = x"
| "join sep (x # y # ys) = x @ sep @ join sep (y # ys)"

subsection \<open>Variant sources\<close>

text \<open>
  A call record of the variant-call file, with the attributes \<^verbatim>\<open>read_vcf_var\<close> reads:
  \<^verbatim>\<open>contig\<close>, \<^verbatim>\<open>pos\<close>, \<^verbatim>\<open>alleles\<close>, \<^verbatim>\<open>alts\<close> (which the library gives as \<^verbatim>\<open>None\<close> for a
  record without alternate allele), the keys of \<^verbatim>\<open>filter\<close>, and for every sample the
  haplotype calls \<^verbatim>\<open>call['GT']\<close>, a missing call being \<^verbatim>\<open>None\<close>.
\<close>

record vcf_record =
  contig :: string
  pos :: int
  alleles :: "string list"
  alts :: "string list option"
  filter_keys :: "string list"
  samples :: "(string \<times> int option list) list"

datatype var_type = Kmers | Vcf | Rtab

text \<open>
  The open input: the lines not yet read of a k-mer or Rtab text file and the records
  not yet read of a variant-call file. The indexed lookup
  \<^verbatim>\<open>infile.fetch(contig, start, end)\<close> of the variant-call file is a function of the file
  that reading does not change; the functions below take it as the parameter \<open>fetch\<close>.
\<close>

record infile =
  f_lines :: "string list"
  f_records :: "vcf_record list"

type_synonym dict = "(string \<times> int) list"

type_synonym phenotypes = "(string \<times> real) list"

definition p_index :: "phenotypes \<Rightarrow> string list" where
  "p_index p = map fst p"

definition p_values :: "phenotypes \<Rightarrow> real list" where
  "p_values p = map snd p"

text \<open>
  The six-tuple \<^verbatim>\<open>(eof, k, var_name, kstrains, nkstrains, af)\<close> that \<^verbatim>\<open>read_variant\<close>
  returns has three shapes: \<^verbatim>\<open>(True, None, ..., None)\<close> is \<open>Eof\<close>,
  \<^verbatim>\<open>(False, None, ..., None)\<close> is \<open>NoIndicator\<close>, and a full tuple is \<open>Variant\<close>.
\<close>

datatype read_result =
    Eof
  | NoIndicator
  | Variant (r_k: "int list") (r_name: string) (r_kstrains: "string list")
      (r_nkstrains: "string list") (r_af: real)

text \<open>
  A haplotype call counts as present when \<^verbatim>\<open>str(haplotype) is not "." and haplotype != 0\<close>.
  \<^verbatim>\<open>str\<close> of an integer or of \<^verbatim>\<open>None\<close> is never the string \<^verbatim>\<open>"."\<close>, so the first conjunct
  holds for every call and the test is \<^verbatim>\<open>haplotype != 0\<close>, which holds for \<^verbatim>\<open>None\<close> too.
\<close>

definition hap_present :: "int option \<Rightarrow> bool" where
  "hap_present h = (h \<noteq> Some 0)"

definition read_vcf_var :: "vcf_record \<Rightarrow> dict \<Rightarrow> error + (string option \<times> dict)" where
  "read_vcf_var variant d =
     (let var_name = join ''_'' ([contig variant, str_int (pos variant)] @ alleles variant) in
      case alts variant of
        None \<Rightarrow> Inl TypeError
      | Some al \<Rightarrow>
          if length al > 1 then Inr (None, d)
          else if ''PASS'' \<notin> set (filter_keys variant) \<and> ''.'' \<notin> set (filter_keys variant)
          then Inr (None, d)
          else Inr (Some var_name,
                 fold (\<lambda>(sample, gt) d. if \<exists>h \<in> set gt. hap_present h
                                          then AList.update sample 1 d else d)
                      (samples variant) d))"

text \<open>
  \<^verbatim>\<open>re.match('^(.+):(\d+)-(\d+)$', region)\<close>, giving the three groups with the last two
  read by \<^verbatim>\<open>int\<close>. The two digit groups and the dash hold no colon, so the colon of the
  pattern is the last colon of the string and the match is found from the right end;
  \<^verbatim>\<open>.\<close> matches no line feed, and \<^verbatim>\<open>$\<close> also matches before one final line feed.
\<close>

definition parse_region :: "string \<Rightarrow> (string \<times> int \<times> int) option" where
  "parse_region s =
     (let r = rev s;
          r0 = (case r of c # cs \<Rightarrow> if c = CHR 0x0A then cs else r | [] \<Rightarrow> r);
          g3 = takeWhile isdigit r0
      in case dropWhile isdigit r0 of
           c1 # r1 \<Rightarrow>
             (let g2 = takeWhile isdigit r1
              in case dropWhile isdigit r1 of
                   c2 # r2 \<Rightarrow>
                     if c1 = CHR ''-'' \<and> c2 = CHR '':'' \<and> g3 \<noteq> [] \<and> g2 \<noteq> [] \<and> r2 \<noteq> []
                        \<and> CHR 0x0A \<notin> set r2
                     then Some (rev r2, int_of_digits (rev g2), int_of_digits (rev g3))
                     else None
                 | [] \<Rightarrow> None)
         | [] \<Rightarrow> None)"

text \<open>
  The part of \<^verbatim>\<open>read_variant\<close> common to the three formats (the lines from
  \<^verbatim>\<open>kstrains = sorted(...)\<close> to the \<^verbatim>\<open>return\<close>): \<open>d\<close> holds the samples seen present.
\<close>

definition finish_variant ::
  "phenotypes \<Rightarrow> string set \<Rightarrow> string \<Rightarrow> dict \<Rightarrow> error + read_result" where
  "finish_variant p all_strains var_name d =
     (let kstrains = sorted_list_of_set (set (map fst d) \<inter> all_strains);
          nkstrains = sorted_list_of_set (all_strains - set kstrains);
          d' = fold (\<lambda>x d. AList.update x 0 d) nkstrains d
      in if card all_strains = 0 then Inl ZeroDivisionError
         else Inr (Variant (List.map_filter (map_of d') (p_index p)) var_name kstrains nkstrains
                     (real (length kstrains) / real (card all_strains))))"

text \<open>Folding \<^verbatim>\<open>read_vcf_var\<close> over the records of a burden region; the names are dropped.\<close>

fun read_region :: "vcf_record list \<Rightarrow> dict \<Rightarrow> error + dict" where
  "read_region [] d = Inr d"
| "read_region (variant # vs) d =
     (case read_vcf_var variant d of
        Inl e \<Rightarrow> Inl e
      | Inr (var_sub_name, d') \<Rightarrow> read_region vs d')"

text \<open>
  \<^verbatim>\<open>read_variant\<close>. The result carries the input and the region queue as the call
  leaves them. \<^verbatim>\<open>readline\<close> gives the empty string at the end of a file, \<^verbatim>\<open>next\<close> on the
  exhausted record iterator and a pop from the empty region queue give \<^verbatim>\<open>None\<close>; each
  is the falsy \<^verbatim>\<open>line_in\<close> that makes the call return end-of-stream. Decoding a line of
  the compressed k-mer file leaves ASCII text as it is.
\<close>

definition read_variant ::
  "(string \<Rightarrow> int \<Rightarrow> int \<Rightarrow> vcf_record list) \<Rightarrow> infile \<Rightarrow> phenotypes \<Rightarrow> var_type \<Rightarrow> bool \<Rightarrow> (string \<times> string) list \<Rightarrow> bool \<Rightarrow> string set
     \<Rightarrow> string list \<Rightarrow> error + (read_result \<times> infile \<times> (string \<times> string) list)" where
  "read_variant fetch infile p vt burden burden_regions uncompressed all_strains
       sample_order =
     (case vt of
        Vcf \<Rightarrow>
          if burden then
            (case burden_regions of
               [] \<Rightarrow> Inr (Eof, infile, burden_regions)
             | (var_name, region) # rest \<Rightarrow>
                 (case parse_region region of
                    Some (g1, g2, g3) \<Rightarrow>
                      (case read_region (fetch g1 (g2 - 1) g3) [] of
                         Inl e \<Rightarrow> Inl e
                       | Inr d \<Rightarrow>
                           (case finish_variant p all_strains var_name d of
                              Inl e \<Rightarrow> Inl e
                            | Inr res \<Rightarrow> Inr (res, infile, rest)))
                  | None \<Rightarrow> Inr (NoIndicator, infile, rest)))
          else
            (case f_records infile of
               [] \<Rightarrow> Inr (Eof, infile, burden_regions)
             | line_in # rest \<Rightarrow>
                 (case read_vcf_var line_in [] of
                    Inl e \<Rightarrow> Inl e
                  | Inr (None, d) \<Rightarrow> Inr (NoIndicator, infile\<lparr>f_records := rest\<rparr>, burden_regions)
                  | Inr (Some var_name, d) \<Rightarrow>
                      (case finish_variant p all_strains var_name d of
                         Inl e \<Rightarrow> Inl e
                       | Inr res \<Rightarrow> Inr (res, infile\<lparr>f_records := rest\<rparr>, burden_regions))))
      | Kmers \<Rightarrow>
          (case f_lines infile of
             [] \<Rightarrow> Inr (Eof, infile, burden_regions)
           | line_in # rest \<Rightarrow>
               if line_in = [] then Inr (Eof, infile, burden_regions)
               else
                 (case py_index (py_split line_in) 0 of
                    Inl e \<Rightarrow> Inl e
                  | Inr var_name \<Rightarrow>
                      (case py_index (py_split_on CHR ''|'' (rstrip line_in)) 1 of
                         Inl e \<Rightarrow> Inl e
                       | Inr s \<Rightarrow>
                           (let strains = py_split (lstrip s);
                                d = fold (\<lambda>x d. AList.update (before_colon x) 1 d) strains []
                            in case finish_variant p all_strains var_name d of
                                 Inl e \<Rightarrow> Inl e
                               | Inr res \<Rightarrow> Inr (res, infile\<lparr>f_lines := rest\<rparr>, burden_regions)))))
      | Rtab \<Rightarrow>
          (case f_lines infile of
             [] \<Rightarrow> Inr (Eof, infile, burden_regions)
           | line_in # rest \<Rightarrow>
               if line_in = [] then Inr (Eof, infile, burden_regions)
               else
                 (let split_line = py_split (rstrip line_in) in
                  case py_index split_line 0 of
                    Inl e \<Rightarrow> Inl e
                  | Inr var_name \<Rightarrow>
                      (let strains = tl split_line;
                           d = fold (\<lambda>(present, sample) d.
                                        if present \<noteq> ''0'' then AList.update sample 1 d else d)
                                 (zip strains sample_order) []
                       in case finish_variant p all_strains var_name d of
                            Inl e \<Rightarrow> Inl e
                          | Inr res \<Rightarrow> Inr (res, infile\<lparr>f_lines := rest\<rparr>, burden_regions)))))"

subsection \<open>Pattern hash\<close>

text \<open>
  \<^verbatim>\<open>hash_pattern\<close>: the indicator array viewed as bytes, its MD5 digest, base64-encoded.
  The array holds Python integers, stored as 64-bit little-endian words. The digest and
  the encoding belong to the standard library and are parameters \<open>md5\<close> and \<open>b2a_base64\<close>.
\<close>

definition view_uint8 :: "int list \<Rightarrow> 8 word list" where
  "view_uint8 k = concat (map (\<lambda>x. map (\<lambda>i. word_of_int (x div 2 ^ (8 * i))) [0..<8]) k)"

definition hash_pattern ::
  "(8 word list \<Rightarrow> 8 word list) \<Rightarrow> (8 word list \<Rightarrow> string) \<Rightarrow> int list \<Rightarrow> string" where
  "hash_pattern md5 b2a_base64 k = b2a_base64 (md5 (view_uint8 k))"

subsection \<open>Result records\<close>

text \<open>
  \<^verbatim>\<open>classes.LMM\<close> is a named tuple of fourteen fields. \<^verbatim>\<open>load_var_block\<close> calls it with
  eleven positional arguments, the fields up to \<^verbatim>\<open>nkstrains\<close>; these are \<open>lmm_args\<close>, and
  the named tuple adds \<^verbatim>\<open>notes\<close>, \<^verbatim>\<open>prefilter\<close> and \<^verbatim>\<open>filter\<close> (here \<open>lmm_notes\<close>,
  \<open>prefilter\<close> and \<open>filter_flag\<close>).
\<close>

record lmm_args =
  kmer :: string
  pattern :: string
  af :: real
  prep :: real
  pvalue :: real
  kbeta :: real
  bse :: real
  frac_h2 :: real
  max_lineage :: "string option"
  kstrains :: "string list"
  nkstrains :: "string list"

record lmm = lmm_args +
  lmm_notes :: "string list"
  prefilter :: bool
  filter_flag :: bool

text \<open>
  A named tuple has no default values: called with eleven of its fourteen fields it
  raises TypeError (three required arguments are missing). This is the constructor as
  \<^verbatim>\<open>classes.py\<close> declares it, applied as \<^verbatim>\<open>load_var_block\<close> applies it.
\<close>

definition LMM :: "lmm_args \<Rightarrow> error + lmm" where
  "LMM a = Inl TypeError"

text \<open>
  \<^verbatim>\<open>classes.Seer\<close>, the result of the fixed-effects worker. Its fields carry the prefix
  \<open>s_\<close>; \<^verbatim>\<open>kmer\<close> and the statistics of a prefiltered variant are \<^verbatim>\<open>None\<close> or NaN.
\<close>

record seer =
  s_kmer :: "string option"
  s_pattern :: string
  s_af :: "real option"
  s_prep :: "real option"
  s_pvalue :: "real option"
  s_kbeta :: "real option"
  s_bse :: "real option"
  s_intercept :: "real option"
  s_betas :: "real list"
  s_max_lineage :: "string option"
  s_kstrains :: "string list"
  s_nkstrains :: "string list"
  s_notes :: "string list"
  s_prefilter :: bool
  s_filter :: bool

subsection \<open>The iterator of the fixed-effects path\<close>

text \<open>
  The sixteen-tuple that \<^verbatim>\<open>iter_variants\<close> yields for a variant that passes; the tuple of
  sixteen \<^verbatim>\<open>None\<close> that it yields otherwise is \<open>None\<close>. The null fits are opaque values.
\<close>

record ('nf, 'fn) fe_args =
  a_var_name :: string
  a_v :: "real list"
  a_k :: "int list"
  a_m :: "real list list"
  a_c :: "real list list"
  a_af :: real
  a_pattern :: string
  a_lineage_effects :: bool
  a_lineage_clusters :: "real list list option"
  a_filter_pvalue :: real
  a_lrt_pvalue :: real
  a_null_fit :: 'nf
  a_firth_null :: 'fn
  a_kstrains :: "string list"
  a_nkstrains :: "string list"
  a_continuous :: bool

text \<open>
  The generator object: running on an input and a region queue, or finished. Raising
  \<^verbatim>\<open>StopIteration\<close> in the generator body ends the iteration (the semantics of the
  interpreters the code was written for, before Python 3.7).
\<close>

datatype gen = Running infile "(string \<times> string) list" | Finished

text \<open>
  One \<^verbatim>\<open>next\<close> on the generator \<^verbatim>\<open>iter_variants(...)\<close>: \<open>None\<close> when it is exhausted,
  \<open>Some\<close> of the yielded tuple otherwise.
\<close>

definition iter_variants ::
  "(8 word list \<Rightarrow> 8 word list) \<Rightarrow> (8 word list \<Rightarrow> string) \<Rightarrow>
   (string \<Rightarrow> int \<Rightarrow> int \<Rightarrow> vcf_record list) \<Rightarrow>
   phenotypes \<Rightarrow> real list list \<Rightarrow> real list list \<Rightarrow> var_type \<Rightarrow> bool \<Rightarrow> string set \<Rightarrow> string list
     \<Rightarrow> bool \<Rightarrow> real list list option \<Rightarrow> real \<Rightarrow> real \<Rightarrow> real \<Rightarrow> real \<Rightarrow> 'nf \<Rightarrow> 'fn \<Rightarrow> bool \<Rightarrow> bool
     \<Rightarrow> gen \<Rightarrow> error + (('nf, 'fn) fe_args option option \<times> gen)" where
  "iter_variants md5 b2a_base64 fetch p m c vt burden all_strains sample_order lineage_effects
       lineage_clusters min_af max_af filter_pvalue lrt_pvalue null_fit firth_null
       uncompressed is_continuous g =
     (case g of
        Finished \<Rightarrow> Inr (None, Finished)
      | Running infile burden_regions \<Rightarrow>
          (case read_variant fetch infile p vt burden burden_regions uncompressed all_strains
                  sample_order of
             Inl e \<Rightarrow> Inl e
           | Inr (Eof, infile', regions') \<Rightarrow> Inr (None, Finished)
           | Inr (NoIndicator, infile', regions') \<Rightarrow> Inr (Some None, Running infile' regions')
           | Inr (Variant k var_name ks nks f, infile', regions') \<Rightarrow>
               if \<not> (min_af \<le> f \<and> f \<le> max_af) then Inr (Some None, Running infile' regions')
               else Inr (Some (Some \<lparr>a_var_name = var_name, a_v = p_values p, a_k = k, a_m = m,
                                      a_c = c, a_af = f,
                                      a_pattern = hash_pattern md5 b2a_base64 k,
                                      a_lineage_effects = lineage_effects,
                                      a_lineage_clusters = lineage_clusters,
                                      a_filter_pvalue = filter_pvalue,
                                      a_lrt_pvalue = lrt_pvalue, a_null_fit = null_fit,
                                      a_firth_null = firth_null, a_kstrains = ks,
                                      a_nkstrains = nks, a_continuous = is_continuous\<rparr>),
                         Running infile' regions')))"

subsection \<open>The block loader of the mixed-model path\<close>

text \<open>
  The locals of \<^verbatim>\<open>load_var_block\<close>: the counter, the list of records and the matrix,
  kept as the list of its \<^verbatim>\<open>block_size\<close> columns.
\<close>

record block =
  b_prefilter :: nat
  b_variants :: "lmm list"
  b_mat :: "int list list"

text \<open>
  The body of the loop after the end-of-stream test. \<open>new_LMM\<close> is the record constructor
  and \<open>pre_filtering\<close> the cheap pre-test of \<^verbatim>\<open>pyseer.model\<close>, which returns a pair whose
  first component is the p-value. A read always has one indicator entry per sample, so
  the column assignment cannot fail.
\<close>

definition block_body ::
  "(lmm_args \<Rightarrow> error + lmm) \<Rightarrow> (phenotypes \<Rightarrow> int list \<Rightarrow> bool \<Rightarrow> real \<times> bool) \<Rightarrow>
   (8 word list \<Rightarrow> 8 word list) \<Rightarrow> (8 word list \<Rightarrow> string) \<Rightarrow>
   phenotypes \<Rightarrow> real \<Rightarrow> real \<Rightarrow> real \<Rightarrow> bool \<Rightarrow> nat \<Rightarrow> read_result \<Rightarrow> block \<Rightarrow> error + block" where
  "block_body new_LMM pre_filtering md5 b2a_base64 p min_af max_af filter_pvalue is_continuous
       var_idx res b =
     (case res of
        Variant k var_name ks nks f \<Rightarrow>
          if min_af \<le> f \<and> f \<le> max_af then
            (let prp = (if \<not> is_continuous then fst (pre_filtering p k is_continuous) else 0) in
             if prp < filter_pvalue then
               (case new_LMM \<lparr>kmer = var_name, pattern = hash_pattern md5 b2a_base64 k, af = f,
                               prep = prp, pvalue = 0, kbeta = 0, bse = 0, frac_h2 = 0,
                               max_lineage = None, kstrains = ks, nkstrains = nks\<rparr> of
                  Inl e \<Rightarrow> Inl e
                | Inr v \<Rightarrow> Inr (b\<lparr>b_variants := b_variants b @ [v],
                                   b_mat := (b_mat b)[var_idx := k]\<rparr>))
             else Inr b)
          else Inr (b\<lparr>b_prefilter := b_prefilter b + 1\<rparr>)
      | _ \<Rightarrow> Inr (b\<lparr>b_prefilter := b_prefilter b + 1\<rparr>))"

text \<open>
  \<^verbatim>\<open>for var_idx in range(block_size)\<close>: read, leave the loop at end-of-stream, else run
  the body and go on with the next index. \<open>eof\<close> is the local variable of that name,
  \<open>None\<close> as long as no read has assigned it. The result carries its last value and the
  input as it is left.
\<close>

function block_loop ::
  "(infile \<Rightarrow> (string \<times> string) list \<Rightarrow> error + (read_result \<times> infile \<times> (string \<times> string) list))
   \<Rightarrow> (nat \<Rightarrow> read_result \<Rightarrow> block \<Rightarrow> error + block) \<Rightarrow> nat \<Rightarrow> nat \<Rightarrow> infile
   \<Rightarrow> (string \<times> string) list \<Rightarrow> block \<Rightarrow> bool option
   \<Rightarrow> error + (block \<times> bool option \<times> infile \<times> (string \<times> string) list)" where
  "block_loop rd body block_size var_idx infile burden_regions b eof =
     (if var_idx < block_size then
        (case rd infile burden_regions of
           Inl e \<Rightarrow> Inl e
         | Inr (res, infile', regions') \<Rightarrow>
             if res = Eof then Inr (b, Some True, infile', regions')
             else (case body var_idx res b of
                     Inl e \<Rightarrow> Inl e
                   | Inr b' \<Rightarrow>
                       block_loop rd body block_size (var_idx + 1) infile' regions' b'
                         (Some False)))
      else Inr (b, eof, infile, burden_regions))"
  by pat_completeness auto
termination
  by (relation "measure (\<lambda>(rd, body, block_size, var_idx, infile, regions, b, eof).
        block_size - var_idx)")
    auto

declare block_loop.simps [simp del]

text \<open>The columns that are not all zero, in order.\<close>

definition compact :: "int list list \<Rightarrow> int list list" where
  "compact mat = filter (\<lambda>col. \<not> list_all (\<lambda>x. x = 0) col) mat"

text \<open>
  \<^verbatim>\<open>load_var_block\<close>. With \<^verbatim>\<open>block_size = 0\<close> the loop body never runs and the final
  \<^verbatim>\<open>return\<close> reads the unassigned \<^verbatim>\<open>eof\<close>. The result is
  \<^verbatim>\<open>(variants, variant_mat, counts, eof)\<close>, \<^verbatim>\<open>counts\<close> being the pair of
  \<^verbatim>\<open>counts['prefilter']\<close> and \<^verbatim>\<open>counts['tested']\<close>, then the input as it is left.
  \<open>new_LMM\<close> stands for \<^verbatim>\<open>var_obj.LMM\<close>; the runs of the code pass \<open>LMM\<close>, the constructor as
  \<^verbatim>\<open>classes.py\<close> declares it.
\<close>

definition load_var_block ::
  "(lmm_args \<Rightarrow> error + lmm) \<Rightarrow> (phenotypes \<Rightarrow> int list \<Rightarrow> bool \<Rightarrow> real \<times> bool) \<Rightarrow>
   (8 word list \<Rightarrow> 8 word list) \<Rightarrow> (8 word list \<Rightarrow> string) \<Rightarrow>
   (string \<Rightarrow> int \<Rightarrow> int \<Rightarrow> vcf_record list) \<Rightarrow>
   var_type \<Rightarrow> phenotypes \<Rightarrow> bool \<Rightarrow> (string \<times> string) list \<Rightarrow> infile \<Rightarrow> string set \<Rightarrow> string list
   \<Rightarrow> real \<Rightarrow> real \<Rightarrow> real \<Rightarrow> bool \<Rightarrow> bool \<Rightarrow> nat
   \<Rightarrow> error + ((lmm list \<times> int list list \<times> (nat \<times> nat) \<times> bool) \<times> infile \<times> (string \<times> string) list)" where
  "load_var_block new_LMM pre_filtering md5 b2a_base64 fetch vt p burden burden_regions infile
       all_strains sample_order min_af max_af filter_pvalue uncompressed is_continuous block_size =
     (case block_loop
             (\<lambda>infile regions. read_variant fetch infile p vt burden regions uncompressed all_strains
                                 sample_order)
             (block_body new_LMM pre_filtering md5 b2a_base64 p min_af max_af filter_pvalue
                is_continuous)
             block_size 0 infile burden_regions
             \<lparr>b_prefilter = 0, b_variants = [],
              b_mat = replicate block_size (replicate (length p) 0)\<rparr>
             None of
        Inl e \<Rightarrow> Inl e
      | Inr (b, None, infile', regions') \<Rightarrow> Inl UnboundLocalError
      | Inr (b, Some eof, infile', regions') \<Rightarrow>
          Inr ((b_variants b, compact (b_mat b), (b_prefilter b, length (b_variants b)), eof),
               infile', regions'))"

subsection \<open>The association loops of \<^verbatim>\<open>main\<close>\<close>

text \<open>
  The counters \<^verbatim>\<open>prefilter\<close>, \<^verbatim>\<open>tested\<close> and \<^verbatim>\<open>printed\<close> of \<^verbatim>\<open>main\<close>, what has been
  written to the patterns file, and the lines printed after the header.
\<close>

record run =
  n_prefilter :: nat
  n_tested :: nat
  n_printed :: nat
  patterns_file :: "string list"
  stdout :: "string list"

definition run0 :: run where
  "run0 = \<lparr>n_prefilter = 0, n_tested = 0, n_printed = 0, patterns_file = [], stdout = []\<rparr>"

text \<open>The first diagnostic line, \<^verbatim>\<open>'%d loaded variants' % (prefilter + tested)\<close>.\<close>

definition loaded :: "run \<Rightarrow> nat" where
  "loaded r = n_prefilter r + n_tested r"

definition lmm_block_size :: nat where
  "lmm_block_size = 10000"


text \<open>
  What both branches of the fixed-effects path do with one result of the worker.
  \<open>format_output\<close> is the formatter of \<^verbatim>\<open>pyseer.utils\<close> with its other arguments fixed.
\<close>

definition collect :: "bool \<Rightarrow> (seer \<Rightarrow> string) \<Rightarrow> seer \<Rightarrow> run \<Rightarrow> run" where
  "collect output_patterns format_output x r =
     (if s_prefilter x then r\<lparr>n_prefilter := n_prefilter r + 1\<rparr>
      else
        (let r1 = r\<lparr>n_tested := n_tested r + 1\<rparr>;
             r2 = (if output_patterns
                   then r1\<lparr>patterns_file := patterns_file r1 @ [s_pattern x]\<rparr> else r1)
         in if s_filter x then r2
            else r2\<lparr>n_printed := n_printed r2 + 1,
                    stdout := stdout r2 @ [format_output x]\<rparr>))"

text \<open>The size of what is left to read, and of a generator.\<close>

definition src_size :: "infile \<Rightarrow> (string \<times> string) list \<Rightarrow> nat" where
  "src_size infile burden_regions =
     length (f_lines infile) + length (f_records infile) + length burden_regions"

fun gen_size :: "gen \<Rightarrow> nat" where
  "gen_size Finished = 0"
| "gen_size (Running infile burden_regions) = Suc (src_size infile burden_regions)"

text \<open>Every read that is not end-of-stream consumes one line, record or region.\<close>

lemma finish_variant_not_Eof:
  "finish_variant p all_strains var_name d = Inr res \<Longrightarrow> res \<noteq> Eof"
  by (auto simp: finish_variant_def Let_def split: if_splits)

lemma read_variant_size:
  assumes "read_variant fetch infile p vt burden regions uncompressed all_strains sample_order
             = Inr (res, infile', regions')"
  shows "if res = Eof then infile' = infile \<and> regions' = regions
         else src_size infile' regions' < src_size infile regions"
  using assms
  unfolding read_variant_def src_size_def
  by (auto simp: Let_def dest: finish_variant_not_Eof
      split: var_type.splits if_splits list.splits sum.splits option.splits prod.splits)

lemma iter_variants_size:
  assumes "iter_variants md5 b2a_base64 fetch p m c vt burden all_strains sample_order lineage_effects
       lineage_clusters min_af max_af filter_pvalue lrt_pvalue null_fit firth_null
       uncompressed is_continuous g = Inr (Some y, g')"
  shows "gen_size g' < gen_size g"
  using assms
  unfolding iter_variants_def
  by (auto dest!: read_variant_size
      split: gen.splits sum.splits prod.splits read_result.splits if_splits)







text \<open>
  The sequential branch, \<^verbatim>\<open>for data in v_iter: ret = fixed_effects_regression(*data) ...\<close>.
  The worker \<open>fixed_effects_regression\<close> belongs to \<^verbatim>\<open>pyseer.model\<close> and is a parameter.
\<close>

function fixed_sequential ::
  "(8 word list \<Rightarrow> 8 word list) \<Rightarrow> (8 word list \<Rightarrow> string) \<Rightarrow>
   (string \<Rightarrow> int \<Rightarrow> int \<Rightarrow> vcf_record list) \<Rightarrow>
   phenotypes \<Rightarrow> real list list \<Rightarrow> real list list \<Rightarrow> var_type \<Rightarrow> bool \<Rightarrow> string set \<Rightarrow> string list
     \<Rightarrow> bool \<Rightarrow> real list list option \<Rightarrow> real \<Rightarrow> real \<Rightarrow> real \<Rightarrow> real \<Rightarrow> 'nf \<Rightarrow> 'fn \<Rightarrow> bool \<Rightarrow> bool
     \<Rightarrow> (('nf, 'fn) fe_args option \<Rightarrow> seer) \<Rightarrow> bool \<Rightarrow> (seer \<Rightarrow> string)
     \<Rightarrow> gen \<Rightarrow> run \<Rightarrow> error + run" where
  "fixed_sequential md5 b2a_base64 fetch p m c vt burden all_strains sample_order lineage_effects
       lineage_clusters min_af max_af filter_pvalue lrt_pvalue null_fit firth_null
       uncompressed is_continuous fixed_effects_regression output_patterns format_output g r =
     (case iter_variants md5 b2a_base64 fetch p m c vt burden all_strains sample_order lineage_effects
             lineage_clusters min_af max_af filter_pvalue lrt_pvalue null_fit firth_null
             uncompressed is_continuous g of
        Inl e \<Rightarrow> Inl e
      | Inr (None, g') \<Rightarrow> Inr r
      | Inr (Some data, g') \<Rightarrow>
          fixed_sequential md5 b2a_base64 fetch p m c vt burden all_strains sample_order
            lineage_effects lineage_clusters min_af max_af filter_pvalue lrt_pvalue null_fit
            firth_null uncompressed is_continuous fixed_effects_regression output_patterns
            format_output g'
            (collect output_patterns format_output (fixed_effects_regression data) r))"
  by pat_completeness auto
termination
  by (relation "measure (\<lambda>(md5, b2a_base64, fetch, p, m, c, vt, burden, all_strains, sample_order,
        lineage_effects, lineage_clusters, min_af, max_af, filter_pvalue, lrt_pvalue, null_fit,
        firth_null, uncompressed, is_continuous, fixed_effects_regression, output_patterns,
        format_output, g, r). gen_size g)")
    (auto dest: iter_variants_size)

declare fixed_sequential.simps [simp del]




subsection \<open>The chunked loop and the sequential loop\<close>





subsection \<open>What a read returns\<close>

text \<open>
  The indicator vector of a set of present samples: one entry per sample of the
  phenotype, in its order, 1 for a sample that is present. A dictionary built by a
  reader holds only the value 1 until the absent samples are added.
\<close>

definition indicator :: "phenotypes \<Rightarrow> string list \<Rightarrow> int list" where
  "indicator p ks = map (\<lambda>x. if x \<in> set ks then 1 else 0) (p_index p)"

definition presence_dict :: "dict \<Rightarrow> bool" where
  "presence_dict d = (\<forall>x v. map_of d x = Some v \<longrightarrow> v = 1)"

lemma presence_dict_Nil: "presence_dict []"
  by (simp add: presence_dict_def)

lemma presence_dict_update: "presence_dict d \<Longrightarrow> presence_dict (AList.update x 1 d)"
  by (simp add: presence_dict_def update_conv')

lemma presence_dict_fold:
  assumes "\<And>x d. presence_dict d \<Longrightarrow> presence_dict (f x d)"
  shows "presence_dict d \<Longrightarrow> presence_dict (fold f xs d)"
  by (induction xs arbitrary: d) (simp_all add: assms)

lemma map_of_fold_update:
  "map_of (fold (\<lambda>x. AList.update x v) xs d) y = (if y \<in> set xs then Some v else map_of d y)"
  by (induction xs arbitrary: d) (auto simp: update_conv')

lemma map_filter_total:
  assumes "\<And>x. x \<in> set xs \<Longrightarrow> f x = Some (g x)"
  shows "List.map_filter f xs = map g xs"
  using assms by (induction xs) (simp_all add: List.map_filter_simps)

lemma finish_variant_post:
  assumes pd: "presence_dict d"
    and fin: "finish_variant p (set (p_index p)) var_name d = Inr res"
  shows "\<exists>ks nks. res = Variant (indicator p ks) var_name ks nks
                      (real (length ks) / real (card (set (p_index p))))
           \<and> set ks \<subseteq> set (p_index p) \<and> p \<noteq> []"
proof -
  let ?A = "set (p_index p)"
  let ?ks = "sorted_list_of_set (set (map fst d) \<inter> ?A)"
  let ?nks = "sorted_list_of_set (?A - set ?ks)"
  let ?d' = "fold (\<lambda>x d. AList.update x 0 d) ?nks d"
  have ks: "set ?ks = set (map fst d) \<inter> ?A" by simp
  have nks: "set ?nks = ?A - set ?ks" by simp
  from fin have card: "card ?A \<noteq> 0"
    by (auto simp: finish_variant_def Let_def split: if_splits)
  then have ne: "p \<noteq> []" by (auto simp: p_index_def)
  have look: "map_of ?d' x = Some (if x \<in> set ?ks then 1 else 0)" if "x \<in> ?A" for x
  proof (cases "x \<in> set ?ks")
    case True
    then have "x \<in> fst ` set d" by simp
    then obtain v where v: "map_of d x = Some v"
      by (metis domD dom_map_of_conv_image_fst)
    with pd have "v = 1" by (simp add: presence_dict_def)
    with v True nks show ?thesis by (simp add: map_of_fold_update)
  next
    case False
    with that nks have "x \<in> set ?nks" by simp
    with False show ?thesis by (simp add: map_of_fold_update)
  qed
  have "List.map_filter (map_of ?d') (p_index p) = indicator p ?ks"
    unfolding indicator_def by (rule map_filter_total) (rule look)
  with fin card ne ks show ?thesis
    by (auto simp: finish_variant_def Let_def)
qed

lemma read_vcf_var_presence:
  "presence_dict d \<Longrightarrow> read_vcf_var variant d = Inr (nm, d') \<Longrightarrow> presence_dict d'"
  unfolding read_vcf_var_def
  by (auto simp: Let_def presence_dict_update intro!: presence_dict_fold
      split: option.splits if_splits)

lemma read_region_presence:
  "presence_dict d \<Longrightarrow> read_region vs d = Inr d' \<Longrightarrow> presence_dict d'"
proof (induction vs arbitrary: d)
  case Nil
  then show ?case by simp
next
  case (Cons v vs)
  then show ?case
    by (auto split: sum.splits dest: read_vcf_var_presence)
qed

lemma read_variant_finish:
  assumes "read_variant fetch infile p vt burden regions uncompressed all_strains
             sample_order = Inr (Variant k var_name ks nks f, infile', regions')"
  shows "\<exists>d nm. presence_dict d
           \<and> finish_variant p all_strains nm d = Inr (Variant k var_name ks nks f)"
proof -
  have k1: "presence_dict (fold (\<lambda>x d. AList.update (before_colon x) 1 d) xs [])" for xs
    by (intro presence_dict_fold presence_dict_update presence_dict_Nil)
  have k2: "presence_dict (fold (\<lambda>(present, sample) d.
                if present \<noteq> ''0'' then AList.update sample 1 d else d) xs [])" for xs
    by (rule presence_dict_fold) (auto simp: presence_dict_update presence_dict_Nil)
  show ?thesis
  proof (cases vt)
    case Kmers
    with assms k1 show ?thesis
      unfolding read_variant_def
      by (auto simp: Let_def split: if_splits list.splits sum.splits)
  next
    case Rtab
    with assms k2 show ?thesis
      unfolding read_variant_def
      by (auto simp: Let_def split: if_splits list.splits sum.splits)
  next
    case Vcf
    show ?thesis
    proof (cases burden)
      case True
      with Vcf assms show ?thesis
        unfolding read_variant_def
        by (auto simp: Let_def split: if_splits list.splits sum.splits option.splits prod.splits
            dest!: read_region_presence [OF presence_dict_Nil])
    next
      case False
      with Vcf assms show ?thesis
        unfolding read_variant_def
        by (auto simp: Let_def split: if_splits list.splits sum.splits option.splits prod.splits
            dest!: read_vcf_var_presence [OF presence_dict_Nil])
    qed
  qed
qed

lemma read_variant_post:
  assumes "read_variant fetch infile p vt burden regions uncompressed (set (p_index p))
             sample_order = Inr (Variant k var_name ks nks f, infile', regions')"
  shows "k = indicator p ks \<and> f = real (length ks) / real (card (set (p_index p)))
         \<and> set ks \<subseteq> set (p_index p) \<and> p \<noteq> []"
proof -
  from read_variant_finish [OF assms] obtain d nm where
    "presence_dict d"
    "finish_variant p (set (p_index p)) nm d = Inr (Variant k var_name ks nks f)"
    by blast
  from finish_variant_post [OF this] show ?thesis by auto
qed

lemma indicator_Nil: "indicator p [] = replicate (length p) 0"
  by (simp add: indicator_def p_index_def map_replicate_const)

lemma finish_variant_empty:
  assumes "p \<noteq> []"
  shows "finish_variant p (set (p_index p)) var_name []
         = Inr (Variant (replicate (length p) 0) var_name []
                  (sorted_list_of_set (set (p_index p))) 0)"
proof -
  let ?A = "set (p_index p)"
  let ?d' = "fold (\<lambda>x d. AList.update x 0 d) (sorted_list_of_set ?A) []"
  from assms have card: "card ?A \<noteq> 0" by (cases p) (auto simp: p_index_def)
  have "List.map_filter (map_of ?d') (p_index p) = map (\<lambda>x. 0) (p_index p)"
    by (rule map_filter_total) (simp add: map_of_fold_update)
  then have "List.map_filter (map_of ?d') (p_index p) = replicate (length p) 0"
    by (simp add: map_replicate_const p_index_def)
  with card show ?thesis
    by (simp add: finish_variant_def Let_def)
qed

text \<open>What the iterator and the block body do with a variant that was read.\<close>

lemma iter_variants_Variant:
  assumes "read_variant fetch infile p vt burden regions uncompressed all_strains
             sample_order = Inr (Variant k nm ks nks f, infile', regions')"
  shows "iter_variants md5 b2a_base64 fetch p m c vt burden all_strains sample_order lineage_effects
         lineage_clusters min_af max_af filter_pvalue lrt_pvalue null_fit firth_null
         uncompressed is_continuous (Running infile regions)
         = (if \<not> (min_af \<le> f \<and> f \<le> max_af) then Inr (Some None, Running infile' regions')
            else Inr (Some (Some \<lparr>a_var_name = nm, a_v = p_values p, a_k = k, a_m = m,
                                   a_c = c, a_af = f,
                                   a_pattern = hash_pattern md5 b2a_base64 k,
                                   a_lineage_effects = lineage_effects,
                                   a_lineage_clusters = lineage_clusters,
                                   a_filter_pvalue = filter_pvalue,
                                   a_lrt_pvalue = lrt_pvalue, a_null_fit = null_fit,
                                   a_firth_null = firth_null, a_kstrains = ks,
                                   a_nkstrains = nks, a_continuous = is_continuous\<rparr>),
                      Running infile' regions'))"
  by (simp add: iter_variants_def assms)

lemma block_body_inside:
  assumes "min_af \<le> f" and "f \<le> max_af"
  shows "block_body new_LMM pre_filtering md5 b2a_base64 p min_af max_af filter_pvalue
              is_continuous var_idx (Variant k nm ks nks f) b
            = (let prp = (if \<not> is_continuous then fst (pre_filtering p k is_continuous) else 0)
               in if prp < filter_pvalue
                  then (case new_LMM \<lparr>kmer = nm, pattern = hash_pattern md5 b2a_base64 k,
                                       af = f, prep = prp, pvalue = 0, kbeta = 0, bse = 0,
                                       frac_h2 = 0, max_lineage = None, kstrains = ks,
                                       nkstrains = nks\<rparr> of
                          Inl e \<Rightarrow> Inl e
                        | Inr v \<Rightarrow> Inr (b\<lparr>b_variants := b_variants b @ [v],
                                           b_mat := (b_mat b)[var_idx := k]\<rparr>))
                  else Inr b)"
  using assms by (simp add: block_body_def)

lemma block_body_outside:
  assumes "f < min_af \<or> max_af < f"
  shows "block_body new_LMM pre_filtering md5 b2a_base64 p min_af max_af filter_pvalue
              is_continuous var_idx (Variant k nm ks nks f) b
            = Inr (b\<lparr>b_prefilter := b_prefilter b + 1\<rparr>)"
  using assms by (auto simp: block_body_def)

lemma iter_variants_yield_post:
  assumes "iter_variants md5 b2a_base64 fetch p m c vt burden (set (p_index p)) sample_order
             lineage_effects lineage_clusters min_af max_af filter_pvalue lrt_pvalue null_fit
             firth_null uncompressed is_continuous g = Inr (Some (Some x), g')"
  shows "a_pattern x = hash_pattern md5 b2a_base64 (a_k x)
       \<and> a_k x = indicator p (a_kstrains x)"
proof (cases g)
  case Finished
  with assms show ?thesis by (simp add: iter_variants_def)
next
  case (Running infile regions)
  show ?thesis
  proof (cases "read_variant fetch infile p vt burden regions uncompressed (set (p_index p))
                  sample_order")
    case (Inl e)
    with assms Running show ?thesis by (simp add: iter_variants_def)
  next
    case (Inr r)
    obtain res infile' regions' where r: "r = (res, infile', regions')" by (cases r)
    show ?thesis
    proof (cases res)
      case Eof
      with assms Running Inr r show ?thesis by (simp add: iter_variants_def)
    next
      case NoIndicator
      with assms Running Inr r show ?thesis by (simp add: iter_variants_def)
    next
      case (Variant k nm ks nks f)
      from Inr r Variant have rd: "read_variant fetch infile p vt burden regions uncompressed
          (set (p_index p)) sample_order = Inr (Variant k nm ks nks f, infile', regions')"
        by simp
      from read_variant_post [OF rd] have k: "k = indicator p ks" by simp
      from assms Running rd have "a_k x = k \<and> a_kstrains x = ks
          \<and> a_pattern x = hash_pattern md5 b2a_base64 k"
        by (auto simp: iter_variants_def split: if_splits)
      with k show ?thesis by simp
    qed
  qed
qed

subsection \<open>The mixed-model loop\<close>

text \<open>
  What the mixed-model branch does with one fitted variant (\<^verbatim>\<open>for variant in fitted_variants\<close>).
\<close>

definition collect_lmm :: "bool \<Rightarrow> (lmm \<Rightarrow> string) \<Rightarrow> real \<Rightarrow> lmm \<Rightarrow> run \<Rightarrow> run" where
  "collect_lmm output_patterns format_output lrt_pvalue variant r =
     (let r1 = (if output_patterns
                then r\<lparr>patterns_file := patterns_file r @ [pattern variant]\<rparr> else r)
      in if pvalue variant < lrt_pvalue
         then r1\<lparr>n_printed := n_printed r1 + 1, stdout := stdout r1 @ [format_output variant]\<rparr>
         else r1)"

lemma block_loop_size:
  assumes rd: "\<And>infile regions res infile' regions'.
      rd infile regions = Inr (res, infile', regions') \<Longrightarrow>
      (if res = Eof then infile' = infile \<and> regions' = regions
       else src_size infile' regions' < src_size infile regions)"
  shows "block_loop rd body block_size var_idx infile regions b eof
           = Inr (b', eof', infile', regions')
    \<Longrightarrow> src_size infile' regions' \<le> src_size infile regions
        \<and> (eof' = Some False \<and> eof \<noteq> Some False
             \<longrightarrow> src_size infile' regions' < src_size infile regions)"
proof (induction "block_size - var_idx" arbitrary: var_idx infile regions b eof)
  case 0
  then show ?case by (simp add: block_loop.simps [of rd body block_size var_idx])
next
  case (Suc n)
  from Suc.hyps(2) have lt: "var_idx < block_size" by simp
  from Suc.prems lt obtain res infile1 regions1 where
    r: "rd infile regions = Inr (res, infile1, regions1)"
    by (auto simp: block_loop.simps [of rd body block_size var_idx] split: sum.splits)
  note sz = rd [OF r]
  show ?case
  proof (cases "res = Eof")
    case True
    with Suc.prems lt r sz show ?thesis
      by (auto simp: block_loop.simps [of rd body block_size var_idx])
  next
    case False
    with Suc.prems lt r obtain b1 where
      bd: "body var_idx res b = Inr b1"
      by (auto simp: block_loop.simps [of rd body block_size var_idx] split: sum.splits)
    with Suc.prems lt r False have
      rec: "block_loop rd body block_size (var_idx + 1) infile1 regions1 b1 (Some False)
              = Inr (b', eof', infile', regions')"
      by (simp add: block_loop.simps [of rd body block_size var_idx])
    from Suc.hyps(2) have "n = block_size - (var_idx + 1)" by simp
    from Suc.hyps(1) [OF this rec] sz False show ?thesis
      by simp
  qed
qed

lemma load_var_block_size:
  assumes "load_var_block new_LMM pre_filtering md5 b2a_base64 fetch vt p burden burden_regions
             infile all_strains sample_order min_af max_af filter_pvalue uncompressed
             is_continuous block_size = Inr ((variants, variant_mat, counts, False), infile', regions')"
  shows "src_size infile' regions' < src_size infile burden_regions"
proof -
  from assms obtain b where
    "block_loop
       (\<lambda>infile regions. read_variant fetch infile p vt burden regions uncompressed all_strains
                           sample_order)
       (block_body new_LMM pre_filtering md5 b2a_base64 p min_af max_af filter_pvalue
          is_continuous)
       block_size 0 infile burden_regions
       \<lparr>b_prefilter = 0, b_variants = [],
        b_mat = replicate block_size (replicate (length p) 0)\<rparr>
       None
     = Inr (b, Some False, infile', regions')"
    by (auto simp: load_var_block_def split: sum.splits option.splits)
  from block_loop_size [OF _ this] read_variant_size show ?thesis
    by simp
qed

text \<open>
  The mixed-model branch of \<^verbatim>\<open>main\<close>: \<^verbatim>\<open>while not eof:\<close> load a block, add its counts, and
  when it holds a tested variant fit it and go through the fitted variants. \<open>fit_lmm\<close> is
  the fitting routine of \<^verbatim>\<open>pyseer.lmm\<close> with its other arguments fixed.
\<close>

function association_lmm ::
  "(lmm_args \<Rightarrow> error + lmm) \<Rightarrow> (phenotypes \<Rightarrow> int list \<Rightarrow> bool \<Rightarrow> real \<times> bool) \<Rightarrow>
   (8 word list \<Rightarrow> 8 word list) \<Rightarrow> (8 word list \<Rightarrow> string) \<Rightarrow>
   (string \<Rightarrow> int \<Rightarrow> int \<Rightarrow> vcf_record list) \<Rightarrow>
   (lmm list \<Rightarrow> int list list \<Rightarrow> lmm list) \<Rightarrow> bool \<Rightarrow> (lmm \<Rightarrow> string) \<Rightarrow> real \<Rightarrow>
   var_type \<Rightarrow> phenotypes \<Rightarrow> bool \<Rightarrow> string set \<Rightarrow> string list
   \<Rightarrow> real \<Rightarrow> real \<Rightarrow> real \<Rightarrow> bool \<Rightarrow> bool \<Rightarrow> nat
   \<Rightarrow> infile \<Rightarrow> (string \<times> string) list \<Rightarrow> run \<Rightarrow> error + run" where
  "association_lmm new_LMM pre_filtering md5 b2a_base64 fetch fit_lmm output_patterns
       format_output lrt_pvalue vt p burden all_strains sample_order min_af max_af
       filter_pvalue uncompressed is_continuous block_size infile burden_regions r =
     (case load_var_block new_LMM pre_filtering md5 b2a_base64 fetch vt p burden burden_regions
             infile all_strains sample_order min_af max_af filter_pvalue uncompressed
             is_continuous block_size of
        Inl e \<Rightarrow> Inl e
      | Inr ((variants, variant_mat, (c_prefilter, c_tested), eof), infile', regions') \<Rightarrow>
          (let r1 = r\<lparr>n_prefilter := n_prefilter r + c_prefilter,
                      n_tested := n_tested r + c_tested\<rparr>;
               r2 = (if c_tested > 0
                     then fold (collect_lmm output_patterns format_output lrt_pvalue)
                            (fit_lmm variants variant_mat) r1
                     else r1)
           in if eof then Inr r2
              else association_lmm new_LMM pre_filtering md5 b2a_base64 fetch fit_lmm
                     output_patterns format_output lrt_pvalue vt p burden all_strains
                     sample_order min_af max_af filter_pvalue uncompressed is_continuous
                     block_size infile' regions' r2))"
  by pat_completeness auto
termination
  by (relation "measure (\<lambda>(new_LMM, pre_filtering, md5, b2a_base64, fetch, fit_lmm,
        output_patterns, format_output, lrt_pvalue, vt, p, burden, all_strains, sample_order,
        min_af, max_af, filter_pvalue, uncompressed, is_continuous, block_size, infile,
        burden_regions, r). src_size infile burden_regions)")
    (auto dest: load_var_block_size)

declare association_lmm.simps [simp del]

subsection \<open>The block matrix and the records\<close>

lemma block_loop_invariant:
  assumes step: "\<And>i infile regions res infile' regions' b b'.
      I i b \<Longrightarrow> i < block_size \<Longrightarrow> rd infile regions = Inr (res, infile', regions') \<Longrightarrow>
      res \<noteq> Eof \<Longrightarrow> body i res b = Inr b' \<Longrightarrow> I (Suc i) b'"
  shows "I var_idx b \<Longrightarrow>
    block_loop rd body block_size var_idx infile regions b eof
      = Inr (b', eof', infile', regions')
    \<Longrightarrow> \<exists>i. var_idx \<le> i \<and> I i b'"
proof (induction "block_size - var_idx" arbitrary: var_idx infile regions b eof)
  case 0
  then have "b' = b" by (simp add: block_loop.simps [of rd body block_size var_idx])
  with "0.prems"(1) have "var_idx \<le> var_idx \<and> I var_idx b'" by simp
  then show ?case by (rule exI)
next
  case (Suc n)
  from Suc.hyps(2) have lt: "var_idx < block_size" by simp
  from Suc.prems(2) lt obtain res infile1 regions1 where
    r: "rd infile regions = Inr (res, infile1, regions1)"
    by (auto simp: block_loop.simps [of rd body block_size var_idx] split: sum.splits)
  show ?case
  proof (cases "res = Eof")
    case True
    with Suc.prems lt r have "b' = b"
      by (auto simp: block_loop.simps [of rd body block_size var_idx])
    with Suc.prems(1) have "var_idx \<le> var_idx \<and> I var_idx b'" by simp
    then show ?thesis by (rule exI)
  next
    case False
    with Suc.prems(2) lt r obtain b1 where
      bd: "body var_idx res b = Inr b1"
      by (auto simp: block_loop.simps [of rd body block_size var_idx] split: sum.splits)
    from step [OF Suc.prems(1) lt r False bd] have I1: "I (Suc var_idx) b1" .
    from Suc.prems(2) lt r False bd have
      rec: "block_loop rd body block_size (Suc var_idx) infile1 regions1 b1 (Some False)
              = Inr (b', eof', infile', regions')"
      by (simp add: block_loop.simps [of rd body block_size var_idx])
    from Suc.hyps(2) have "n = block_size - Suc var_idx" by simp
    from Suc.hyps(1) [OF this I1 rec] obtain i where
      "Suc var_idx \<le> i" "I i b'" by blast
    then have "var_idx \<le> i \<and> I i b'" by simp
    then show ?thesis by (rule exI)
  qed
qed

lemma compact_append: "compact (xs @ ys) = compact xs @ compact ys"
  by (simp add: compact_def)

lemma compact_zeros:
  "(\<And>col. col \<in> set xs \<Longrightarrow> col = replicate n 0) \<Longrightarrow> compact xs = []"
proof -
  assume z: "\<And>col. col \<in> set xs \<Longrightarrow> col = replicate n 0"
  have "list_all (\<lambda>x. x = 0) col" if "col \<in> set xs" for col
    using z [OF that] by (simp add: list_all_iff)
  then show ?thesis by (simp add: compact_def filter_empty_conv)
qed

lemma indicator_nonzero:
  assumes "ks \<noteq> []" and "set ks \<subseteq> set (p_index p)"
  shows "\<not> list_all (\<lambda>x. x = 0) (indicator p ks)"
proof -
  from assms obtain x where "x \<in> set ks" "x \<in> set (p_index p)"
    by (cases ks) auto
  then have "(1::int) \<in> set (indicator p ks)"
    by (force simp: indicator_def)
  then have "\<exists>x \<in> set (indicator p ks). x \<noteq> 0"
    by (rule bexI [rotated]) simp
  then show ?thesis
    by (simp add: list_all_iff)
qed

lemma length_indicator: "length (indicator p ks) = length p"
  by (simp add: indicator_def p_index_def)


text \<open>
  The invariant of the block loop before iteration \<open>i\<close>: the matrix keeps its width, the
  columns from \<open>i\<close> on are still zero, and the non-zero columns before \<open>i\<close> are the indicator
  vectors of the constructor calls that built the records, in order.
\<close>

definition aligned ::
  "(lmm_args \<Rightarrow> error + lmm) \<Rightarrow> phenotypes \<Rightarrow> nat \<Rightarrow> nat \<Rightarrow> block \<Rightarrow> bool" where
  "aligned new_LMM p block_size i b =
     (length (b_mat b) = block_size
      \<and> (\<forall>j. i \<le> j \<and> j < block_size \<longrightarrow> b_mat b ! j = replicate (length p) 0)
      \<and> (\<exists>calls. map new_LMM calls = map Inr (b_variants b)
             \<and> compact (take i (b_mat b)) = map (\<lambda>a. indicator p (kstrains a)) calls))"

lemma aligned_step:
  assumes al: "aligned new_LMM p block_size i b"
    and i: "i < block_size"
    and pos: "0 < min_af"
    and rd: "read_variant fetch infile p vt burden regions uncompressed (set (p_index p))
               sample_order = Inr (res, infile', regions')"
    and bd: "block_body new_LMM pre_filtering md5 b2a_base64 p min_af max_af filter_pvalue
               is_continuous i res b = Inr b'"
  shows "aligned new_LMM p block_size (Suc i) b'"
proof -
  from al have len: "length (b_mat b) = block_size"
    and zero: "\<And>j. i \<le> j \<Longrightarrow> j < block_size \<Longrightarrow> b_mat b ! j = replicate (length p) 0"
    by (simp_all add: aligned_def)
  from al obtain calls where
    calls: "map new_LMM calls = map Inr (b_variants b)"
      "compact (take i (b_mat b)) = map (\<lambda>a. indicator p (kstrains a)) calls"
    by (auto simp: aligned_def)
  have take_Suc: "take (Suc i) xs = take i xs @ [xs ! i]" if "i < length xs" for xs :: "int list list"
    using that by (simp add: take_Suc_conv_app_nth)
  have skip: "aligned new_LMM p block_size (Suc i) b'"
    if "b_mat b' = b_mat b" "b_variants b' = b_variants b"
  proof -
    have "compact (take (Suc i) (b_mat b)) = compact (take i (b_mat b))"
      using i len zero [of i]
      by (simp add: take_Suc compact_append) (simp add: compact_def list_all_iff)
    with that len zero calls show ?thesis
      unfolding aligned_def by auto
  qed
  show ?thesis
  proof (cases res)
    case Eof
    with bd skip show ?thesis by (auto simp: block_body_def)
  next
    case NoIndicator
    with bd skip show ?thesis by (auto simp: block_body_def)
  next
    case (Variant k nm ks nks f)
    from read_variant_post [OF rd [unfolded Variant]]
    have k: "k = indicator p ks" and f: "f = real (length ks) / real (card (set (p_index p)))"
      and sub: "set ks \<subseteq> set (p_index p)" by simp_all
    let ?prp = "if \<not> is_continuous then fst (pre_filtering p k is_continuous) else 0"
    let ?a = "\<lparr>kmer = nm, pattern = hash_pattern md5 b2a_base64 k, af = f,
               prep = ?prp, pvalue = 0, kbeta = 0, bse = 0, frac_h2 = 0,
               max_lineage = None, kstrains = ks, nkstrains = nks\<rparr>"
    show ?thesis
    proof (cases "min_af \<le> f \<and> f \<le> max_af \<and> ?prp < filter_pvalue")
      case False
      with bd Variant skip show ?thesis
        by (auto simp: block_body_def Let_def split: if_splits)
    next
      case True
      with bd Variant obtain v where v: "new_LMM ?a = Inr v"
        and b': "b' = b\<lparr>b_variants := b_variants b @ [v], b_mat := (b_mat b)[i := k]\<rparr>"
        by (auto simp: block_body_def Let_def split: sum.splits)
      from True pos f have "ks \<noteq> []" by auto
      with sub k have nz: "\<not> list_all (\<lambda>x. x = 0) k"
        by (simp add: indicator_nonzero)
      have "compact (take (Suc i) ((b_mat b)[i := k])) = compact (take i (b_mat b)) @ [k]"
        using i len nz by (simp add: take_Suc compact_append) (simp add: compact_def)
      with calls k have c: "compact (take (Suc i) (b_mat b'))
          = map (\<lambda>a. indicator p (kstrains a)) (calls @ [?a])"
        by (simp add: b')
      from calls v have m: "map new_LMM (calls @ [?a]) = map Inr (b_variants b')"
        by (simp add: b')
      from len zero have "length (b_mat b') = block_size"
        and "\<forall>j. Suc i \<le> j \<and> j < block_size \<longrightarrow> b_mat b' ! j = replicate (length p) 0"
        by (simp_all add: b')
      with c m show ?thesis
        unfolding aligned_def by blast
    qed
  qed
qed

lemma aligned_final:
  assumes "aligned new_LMM p block_size i b"
  shows "\<exists>calls. map new_LMM calls = map Inr (b_variants b)
           \<and> compact (b_mat b) = map (\<lambda>a. indicator p (kstrains a)) calls"
proof -
  from assms have len: "length (b_mat b) = block_size"
    and zero: "\<And>j. i \<le> j \<Longrightarrow> j < block_size \<Longrightarrow> b_mat b ! j = replicate (length p) 0"
    by (simp_all add: aligned_def)
  have "compact (drop i (b_mat b)) = []"
  proof (rule compact_zeros)
    fix col assume "col \<in> set (drop i (b_mat b))"
    then obtain j where "j < length (drop i (b_mat b))" "col = drop i (b_mat b) ! j"
      by (auto simp: in_set_conv_nth)
    with len zero [of "i + j"] show "col = replicate (length p) 0" by simp
  qed
  then have "compact (b_mat b) = compact (take i (b_mat b))"
    by (metis append_Nil2 append_take_drop_id compact_append)
  with assms show ?thesis by (auto simp: aligned_def)
qed

text \<open>One iteration of the block loop, for runs on concrete inputs.\<close>

lemma block_loop_Eof:
  assumes "var_idx < block_size" and "rd infile regions = Inr (Eof, infile', regions')"
  shows "block_loop rd body block_size var_idx infile regions b eof
         = Inr (b, Some True, infile', regions')"
  using assms by (simp add: block_loop.simps [of rd body block_size var_idx])

lemma block_loop_next:
  assumes "var_idx < block_size" and "rd infile regions = Inr (res, infile', regions')"
    and "res \<noteq> Eof" and "body var_idx res b = Inr b'"
  shows "block_loop rd body block_size var_idx infile regions b eof
         = block_loop rd body block_size (var_idx + 1) infile' regions' b' (Some False)"
  using assms by (simp add: block_loop.simps [of rd body block_size var_idx])

lemma compact_replicate_zero: "compact (replicate n (replicate m 0)) = []"
  by (rule compact_zeros [of _ m]) simp

text \<open>
  Every result of the worker adds one to the loaded count: one to the prefiltered or to
  the tested count, and one to the printed count when it is neither prefiltered nor
  filtered.
\<close>

lemma collect_counts:
  "loaded (collect output_patterns format_output x r) = loaded r + 1
   \<and> n_prefilter (collect output_patterns format_output x r)
     = n_prefilter r + (if s_prefilter x then 1 else 0)
   \<and> n_tested (collect output_patterns format_output x r)
     = n_tested r + (if s_prefilter x then 0 else 1)
   \<and> n_printed (collect output_patterns format_output x r)
     = n_printed r + (if s_prefilter x \<or> s_filter x then 0 else 1)"
  by (simp add: collect_def loaded_def Let_def)

text \<open>
  With the constructor as \<^verbatim>\<open>classes.py\<close> declares it, a call of \<^verbatim>\<open>load_var_block\<close> that
  returns admitted no variant: the first admission raises.
\<close>

lemma load_var_block_LMM_no_record:
  assumes "load_var_block LMM pre_filtering md5 b2a_base64 fetch vt p burden burden_regions
             infile all_strains sample_order min_af max_af filter_pvalue uncompressed
             is_continuous block_size
           = Inr ((variants, variant_mat, counts, eof), infile', regions')"
  shows "variants = [] \<and> snd counts = 0"
proof -
  let ?rd = "\<lambda>infile regions. read_variant fetch infile p vt burden regions uncompressed
               all_strains sample_order"
  let ?body = "block_body LMM pre_filtering md5 b2a_base64 p min_af max_af filter_pvalue
                 is_continuous"
  let ?b0 = "\<lparr>b_prefilter = 0, b_variants = [],
              b_mat = replicate block_size (replicate (length p) 0)\<rparr>"
  from assms obtain b where
    loop: "block_loop ?rd ?body block_size 0 infile burden_regions ?b0 None
             = Inr (b, Some eof, infile', regions')"
    and vs: "variants = b_variants b" and cn: "counts = (b_prefilter b, length (b_variants b))"
    by (auto simp: load_var_block_def split: sum.splits option.splits)
  have init: "b_variants ?b0 = []" by simp
  have step: "b_variants b' = []"
    if "b_variants b = []" and "?body i res b = Inr b'" for i res b b'
    using that
    by (auto simp: block_body_def LMM_def Let_def split: read_result.splits if_splits)
  have "\<exists>i::nat. 0 \<le> i \<and> b_variants b = []"
    by (rule block_loop_invariant [where I = "\<lambda>i b. b_variants b = []" and body = "?body",
          OF _ init loop])
      (rule step)
  with vs cn show ?thesis by simp
qed

text \<open>
  The loop keeps the matrix and the records in step whatever the constructor returns:
  with \<^verbatim>\<open>min_af > 0\<close>, a call of the loader that returns gives the indicator vectors of the
  constructor calls behind its records as columns, in order. With \<open>LMM\<close> no call that
  admits a variant returns (\<open>load_var_block_LMM_no_record\<close>), so this is a property of the
  loop and not of a run of the code as it stands.
\<close>

lemma returned_block_aligned:
  assumes pos: "0 < min_af"
    and lvb: "load_var_block new_LMM pre_filtering md5 b2a_base64 fetch vt p burden
                burden_regions infile (set (p_index p)) sample_order min_af max_af
                filter_pvalue uncompressed is_continuous block_size
              = Inr ((variants, variant_mat, counts, eof), infile', regions')"
  shows "length variant_mat = length variants
       \<and> (\<exists>calls. map new_LMM calls = map Inr variants
              \<and> variant_mat = map (\<lambda>a. indicator p (kstrains a)) calls)
       \<and> ((\<forall>a v. new_LMM a = Inr v \<longrightarrow> kstrains v = kstrains a) \<longrightarrow>
            (\<forall>i < length variants. variant_mat ! i = indicator p (kstrains (variants ! i))))"
proof -
  let ?rd = "\<lambda>infile regions. read_variant fetch infile p vt burden regions uncompressed
               (set (p_index p)) sample_order"
  let ?body = "block_body new_LMM pre_filtering md5 b2a_base64 p min_af max_af filter_pvalue
                 is_continuous"
  let ?b0 = "\<lparr>b_prefilter = 0, b_variants = [],
              b_mat = replicate block_size (replicate (length p) 0)\<rparr>"
  from lvb obtain b where
    loop: "block_loop ?rd ?body block_size 0 infile burden_regions ?b0 None
             = Inr (b, Some eof, infile', regions')"
    and vs: "variants = b_variants b" and mat: "variant_mat = compact (b_mat b)"
    by (auto simp: load_var_block_def split: sum.splits option.splits)
  have init: "aligned new_LMM p block_size 0 ?b0"
    by (simp add: aligned_def compact_def)
  have "\<exists>i. 0 \<le> i \<and> aligned new_LMM p block_size i b"
  proof (rule block_loop_invariant [where I = "aligned new_LMM p block_size", OF _ init loop])
    fix i infile regions res infile' regions' b b'
    assume a1: "aligned new_LMM p block_size i b" and a2: "i < block_size"
      and a3: "?rd infile regions = Inr (res, infile', regions')"
      and a4: "?body i res b = Inr b'"
    show "aligned new_LMM p block_size (Suc i) b'"
      by (rule aligned_step [OF a1 a2 pos a3 a4])
  qed
  then obtain i where "aligned new_LMM p block_size i b" by blast
  from aligned_final [OF this] vs mat obtain calls where
    calls: "map new_LMM calls = map Inr variants"
      "variant_mat = map (\<lambda>a. indicator p (kstrains a)) calls"
    by auto
  from calls have len: "length variant_mat = length variants"
    by (metis length_map)
  have "variant_mat ! i = indicator p (kstrains (variants ! i))"
    if keep: "\<forall>a v. new_LMM a = Inr v \<longrightarrow> kstrains v = kstrains a" and i: "i < length variants"
    for i
  proof -
    from calls(1) i have "new_LMM (calls ! i) = Inr (variants ! i)"
      by (metis length_map nth_map)
    with keep have "kstrains (variants ! i) = kstrains (calls ! i)" by blast
    with calls i len show ?thesis by simp
  qed
  with calls len show ?thesis by blast
qed


subsection \<open>The checks of \<^verbatim>\<open>main\<close> before any input\<close>

text \<open>
  The options that \<^verbatim>\<open>main\<close> checks before it reads anything. A file option that was not
  given is \<^verbatim>\<open>None\<close>; in a condition it counts as true when it is a non-empty string.
\<close>

record options =
  o_max_dimensions :: int
  o_cpu :: int
  o_burden :: "string option"
  o_vcf :: "string option"
  o_lmm :: bool
  o_distances :: "string option"
  o_load_m :: "string option"
  o_similarity :: "string option"
  o_load_lmm :: "string option"
  o_phenotypes :: string
  o_phenotype_column :: "int option"

definition truthy :: "string option \<Rightarrow> bool" where
  "truthy s = (case s of None \<Rightarrow> False | Some t \<Rightarrow> t \<noteq> [])"

datatype action =
    Write_stderr string
  | Sys_exit int
  | Load_phenotypes string "int option"

text \<open>
  What \<^verbatim>\<open>main\<close> does from the return of \<^verbatim>\<open>get_options\<close> to its first exit or, when every
  check passes, to the call of \<^verbatim>\<open>load_phenotypes\<close>, the first statement that reads input.
  Covariates, the structure matrix and the variant file are read after that call.
  \<open>py_major\<close> is \<^verbatim>\<open>sys.version_info[0]\<close>.
\<close>

definition main_start :: "nat \<Rightarrow> options \<Rightarrow> action list" where
  "main_start py_major options =
     (if o_max_dimensions options < 1
      then [Write_stderr (''Minimum number of dimensions after MDS is 1'' @ [CHR 0x0A]),
            Sys_exit 1]
      else if o_cpu options > 1 \<and> py_major < 3
      then [Write_stderr (''pyseer requires python version 3 or above ''
                          @ ''unless the number of threads is 1'' @ [CHR 0x0A]),
            Sys_exit 1]
      else if truthy (o_burden options) \<and> \<not> truthy (o_vcf options)
      then [Write_stderr (''Burden test can only be performed with VCF input'' @ [CHR 0x0A]),
            Sys_exit 1]
      else if (o_lmm options \<and> (truthy (o_distances options) \<or> truthy (o_load_m options)))
              \<or> (\<not> o_lmm options
                  \<and> (truthy (o_similarity options) \<or> truthy (o_load_lmm options)))
      then [Write_stderr (''Must use distance matrix with fixed effects, ''
                          @ ''or similarity matrix with random effects'' @ [CHR 0x0A]),
            Sys_exit 1]
      else if o_cpu options > 1 \<and> o_lmm options
      then [Write_stderr (''LMM does not currently support >1 core'' @ [CHR 0x0A]
                          @ ''Consider splitting your input file ''
                          @ ''or running with 1 core.'' @ [CHR 0x0A]),
            Sys_exit 1]
      else [Load_phenotypes (o_phenotypes options) (o_phenotype_column options)])"

subsection \<open>Concrete inputs\<close>

text \<open>
  The phenotype of four samples, a presence/absence table of three variants, and
  stand-ins for the services outside the code: a digest and an encoding that keep the
  bytes, a worker that flags the \<^verbatim>\<open>None\<close> tuple as prefiltered and filters on the allele
  frequency, a formatter that prints the variant name.
\<close>

definition demo_p :: phenotypes where
  "demo_p = [(''A'', 1), (''B'', 0), (''C'', 1), (''D'', 0)]"

definition demo_order :: "string list" where
  "demo_order = [''A'', ''B'', ''C'', ''D'']"

definition demo_fetch :: "string \<Rightarrow> int \<Rightarrow> int \<Rightarrow> vcf_record list" where
  "demo_fetch ctg start stop = []"

definition demo_md5 :: "8 word list \<Rightarrow> 8 word list" where
  "demo_md5 bs = bs"

definition demo_b2a :: "8 word list \<Rightarrow> string" where
  "demo_b2a bs = map (\<lambda>w. char_of (unat w)) bs"

definition demo_rtab :: infile where
  "demo_rtab = \<lparr>f_lines = [''v1 1 0 1 0'' @ [CHR 0x0A], ''v2 1 1 1 1'' @ [CHR 0x0A],
                            ''v3 0 0 1 0'' @ [CHR 0x0A]],
                 f_records = []\<rparr>"



text \<open>
  For the mixed-model path: a pre-test that lets the pattern of the first variant pass at
  one percent and gives one half otherwise, a fit that reports the allele frequency as
  p-value, a formatter that prints the variant name.
\<close>

definition demo_pre :: "phenotypes \<Rightarrow> int list \<Rightarrow> bool \<Rightarrow> real \<times> bool" where
  "demo_pre p k c = (if k = [1,0,1,0] then 1 / 100 else 1 / 2, False)"

definition demo_fit :: "lmm list \<Rightarrow> int list list \<Rightarrow> lmm list" where
  "demo_fit vs mat = map (\<lambda>v. v\<lparr>pvalue := af v\<rparr>) vs"

definition demo_format_lmm :: "lmm \<Rightarrow> string" where
  "demo_format_lmm v = kmer v"

text \<open>Two values of the named tuple \<^verbatim>\<open>LMM\<close>, with all fourteen fields.\<close>

definition demo_block :: "lmm list" where
  "demo_block =
     [\<lparr>kmer = ''v1'', pattern = hash_pattern demo_md5 demo_b2a [1, 0, 1, 0], af = 1 / 2,
        prep = 1 / 100, pvalue = 0, kbeta = 0, bse = 0, frac_h2 = 0, max_lineage = None,
        kstrains = [''A'', ''C''], nkstrains = [''B'', ''D''],
        lmm_notes = [], prefilter = False, filter_flag = False\<rparr>,
      \<lparr>kmer = ''v3'', pattern = hash_pattern demo_md5 demo_b2a [0, 0, 1, 0], af = 1 / 4,
        prep = 1 / 2, pvalue = 0, kbeta = 0, bse = 0, frac_h2 = 0, max_lineage = None,
        kstrains = [''C''], nkstrains = [''A'', ''B'', ''D''],
        lmm_notes = [], prefilter = False, filter_flag = False\<rparr>]"

text \<open>
  A k-mer file whose only line names the samples A and C, and the tuple that the
  iterator yields for a variant under the options of the examples.
\<close>

definition demo_kmers :: infile where
  "demo_kmers = \<lparr>f_lines = [''ACGT | A:3 C:1'' @ [CHR 0x0A]], f_records = []\<rparr>"

definition demo_yield ::
  "string \<Rightarrow> int list \<Rightarrow> string list \<Rightarrow> string list \<Rightarrow> real \<Rightarrow> (unit, unit) fe_args" where
  "demo_yield nm k ks nks f =
     \<lparr>a_var_name = nm, a_v = p_values demo_p, a_k = k, a_m = [], a_c = [], a_af = f,
      a_pattern = hash_pattern demo_md5 demo_b2a k, a_lineage_effects = False,
      a_lineage_clusters = None, a_filter_pvalue = 1, a_lrt_pvalue = 3 / 10,
      a_null_fit = (), a_firth_null = (), a_kstrains = ks, a_nkstrains = nks,
      a_continuous = False\<rparr>"

text \<open>A call record with two alternate alleles.\<close>

definition demo_multiallelic :: vcf_record where
  "demo_multiallelic =
     \<lparr>contig = ''chr1'', pos = 5, alleles = [''A'', ''C'', ''G''], alts = Some [''C'', ''G''],
      filter_keys = [''PASS''],
      samples = [(''A'', [Some 1]), (''B'', [Some 0]), (''C'', [Some 2]), (''D'', [Some 0])]\<rparr>"

text \<open>A mixed-model request with four processes.\<close>

definition demo_options :: options where
  "demo_options =
     \<lparr>o_max_dimensions = 10, o_cpu = 4, o_burden = None, o_vcf = None, o_lmm = True,
      o_distances = None, o_load_m = None, o_similarity = Some ''similarity.tsv'',
      o_load_lmm = None, o_phenotypes = ''phenotypes.tsv'', o_phenotype_column = None\<rparr>"

section \<open>Properties\<close>

text \<open>
  C1, on the code. A mixed-model run over two variants, the first above \<^verbatim>\<open>max_af\<close>, the
  second inside the bounds and failing the pre-test: the run ends with one prefiltered
  variant and none tested, so one variant is loaded where two were read. The second
  variant is in none of the classes.
\<close>

theorem lmm_run_loses_a_variant:
  "association_lmm LMM demo_pre demo_md5 demo_b2a demo_fetch demo_fit True demo_format_lmm 1
       Rtab demo_p False (set (p_index demo_p)) demo_order (1 / 100) (99 / 100) (1 / 10)
       True False lmm_block_size
       \<lparr>f_lines = [''v2 1 1 1 1'' @ [CHR 0x0A], ''v3 0 0 1 0'' @ [CHR 0x0A]], f_records = []\<rparr>
       [] run0
     = Inr (run0\<lparr>n_prefilter := 1\<rparr>)
   \<and> loaded (run0\<lparr>n_prefilter := 1\<rparr>) = 1
   \<and> n_tested (run0\<lparr>n_prefilter := 1\<rparr>) = 0
   \<and> n_printed (run0\<lparr>n_prefilter := 1\<rparr>) = 0"
proof -
  let ?rd = "\<lambda>infile regions. read_variant demo_fetch infile demo_p Rtab False regions True
               (set (p_index demo_p)) demo_order"
  let ?body = "block_body LMM demo_pre demo_md5 demo_b2a demo_p (1 / 100) (99 / 100) (1 / 10)
                 False"
  let ?b0 = "\<lparr>b_prefilter = 0, b_variants = [],
              b_mat = replicate lmm_block_size (replicate (length demo_p) 0)\<rparr>"
  let ?f2 = "\<lparr>f_lines = [''v2 1 1 1 1'' @ [CHR 0x0A], ''v3 0 0 1 0'' @ [CHR 0x0A]],
              f_records = []\<rparr>"
  let ?f1 = "\<lparr>f_lines = [''v3 0 0 1 0'' @ [CHR 0x0A]], f_records = []\<rparr>"
  let ?f0 = "\<lparr>f_lines = [], f_records = []\<rparr>"
  have r1: "?rd ?f2 []
            = Inr (Variant [1, 1, 1, 1] ''v2'' [''A'', ''B'', ''C'', ''D''] [] 1, ?f1, [])"
    by code_simp
  have r2: "?rd ?f1 []
            = Inr (Variant [0, 0, 1, 0] ''v3'' [''C''] [''A'', ''B'', ''D''] (1 / 4), ?f0, [])"
    by code_simp
  have r3: "?rd ?f0 [] = Inr (Eof, ?f0, [])"
    by code_simp
  have b1: "?body 0 (Variant [1, 1, 1, 1] ''v2'' [''A'', ''B'', ''C'', ''D''] [] 1) ?b0
            = Inr (?b0\<lparr>b_prefilter := 1\<rparr>)"
    by (simp add: block_body_def)
  have b2: "?body (0 + 1) (Variant [0, 0, 1, 0] ''v3'' [''C''] [''A'', ''B'', ''D''] (1 / 4))
              (?b0\<lparr>b_prefilter := 1\<rparr>)
            = Inr (?b0\<lparr>b_prefilter := 1\<rparr>)"
    by (simp add: block_body_def demo_pre_def)
  have "block_loop ?rd ?body lmm_block_size 0 ?f2 [] ?b0 None
        = block_loop ?rd ?body lmm_block_size (0 + 1) ?f1 [] (?b0\<lparr>b_prefilter := 1\<rparr>)
            (Some False)"
    using r1 b1 by (intro block_loop_next) (simp_all add: lmm_block_size_def)
  also have "\<dots> = block_loop ?rd ?body lmm_block_size (0 + 1 + 1) ?f0 []
                      (?b0\<lparr>b_prefilter := 1\<rparr>) (Some False)"
    using r2 b2 by (intro block_loop_next) (simp_all add: lmm_block_size_def)
  also have "\<dots> = Inr (?b0\<lparr>b_prefilter := 1\<rparr>, Some True, ?f0, [])"
    using r3 by (intro block_loop_Eof) (simp_all add: lmm_block_size_def)
  finally have "load_var_block LMM demo_pre demo_md5 demo_b2a demo_fetch Rtab demo_p False []
       ?f2 (set (p_index demo_p)) demo_order (1 / 100) (99 / 100) (1 / 10) True False
       lmm_block_size
     = Inr (([], [], (1, 0), True), ?f0, [])"
    by (simp add: load_var_block_def compact_replicate_zero)
  then have run: "association_lmm LMM demo_pre demo_md5 demo_b2a demo_fetch demo_fit True
       demo_format_lmm 1
       Rtab demo_p False (set (p_index demo_p)) demo_order (1 / 100) (99 / 100) (1 / 10)
       True False lmm_block_size ?f2 [] run0
     = Inr (run0\<lparr>n_prefilter := 1\<rparr>)"
    by (simp add: association_lmm.simps [of LMM] run0_def)
  have "loaded (run0\<lparr>n_prefilter := 1\<rparr>) = 1" "n_tested (run0\<lparr>n_prefilter := 1\<rparr>) = 0"
    "n_printed (run0\<lparr>n_prefilter := 1\<rparr>) = 0"
    by (simp_all add: loaded_def run0_def)
  with run show ?thesis by (intro conjI)
qed


text \<open>
  C2, on the code. A presence/absence line whose variant is present in one of four
  samples, with bounds 0.01 and 0.99 and a pre-test p-value of one half against a
  threshold of one tenth: the variant passes the frequency bounds and fails the pre-test.
  The block has no record and no column for it, and both counts of the block are zero:
  the variant is excluded from the matrix, and it is counted neither as prefiltered nor
  as tested.
\<close>

theorem pretest_failure_dropped:
  "read_variant demo_fetch \<lparr>f_lines = [''v3 0 0 1 0'' @ [CHR 0x0A]], f_records = []\<rparr> demo_p Rtab
       False [] True (set (p_index demo_p)) demo_order
     = Inr (Variant [0, 0, 1, 0] ''v3'' [''C''] [''A'', ''B'', ''D''] (1 / 4),
            \<lparr>f_lines = [], f_records = []\<rparr>, [])
   \<and> fst (demo_pre demo_p [0, 0, 1, 0] False) = 1 / 2
   \<and> load_var_block LMM demo_pre demo_md5 demo_b2a demo_fetch Rtab demo_p False []
       \<lparr>f_lines = [''v3 0 0 1 0'' @ [CHR 0x0A]], f_records = []\<rparr> (set (p_index demo_p))
       demo_order (1 / 100) (99 / 100) (1 / 10) True False lmm_block_size
     = Inr (([], [], (0, 0), True), \<lparr>f_lines = [], f_records = []\<rparr>, [])"
proof -
  let ?rd = "\<lambda>infile regions. read_variant demo_fetch infile demo_p Rtab False regions True
               (set (p_index demo_p)) demo_order"
  let ?body = "block_body LMM demo_pre demo_md5 demo_b2a demo_p (1 / 100) (99 / 100) (1 / 10)
                 False"
  let ?b0 = "\<lparr>b_prefilter = 0, b_variants = [],
              b_mat = replicate lmm_block_size (replicate (length demo_p) 0)\<rparr>"
  have r1: "?rd \<lparr>f_lines = [''v3 0 0 1 0'' @ [CHR 0x0A]], f_records = []\<rparr> []
            = Inr (Variant [0, 0, 1, 0] ''v3'' [''C''] [''A'', ''B'', ''D''] (1 / 4),
                   \<lparr>f_lines = [], f_records = []\<rparr>, [])"
    by code_simp
  have r2: "?rd \<lparr>f_lines = [], f_records = []\<rparr> [] = Inr (Eof, \<lparr>f_lines = [], f_records = []\<rparr>, [])"
    by code_simp
  have pre: "fst (demo_pre demo_p [0, 0, 1, 0] False) = 1 / 2"
    by (simp add: demo_pre_def)
  have b1: "?body 0 (Variant [0, 0, 1, 0] ''v3'' [''C''] [''A'', ''B'', ''D''] (1 / 4)) ?b0
            = Inr ?b0"
    by (simp add: block_body_def pre)
  have "block_loop ?rd ?body lmm_block_size 0
          \<lparr>f_lines = [''v3 0 0 1 0'' @ [CHR 0x0A]], f_records = []\<rparr> [] ?b0 None
        = block_loop ?rd ?body lmm_block_size (0 + 1) \<lparr>f_lines = [], f_records = []\<rparr> [] ?b0
            (Some False)"
    using r1 b1 by (intro block_loop_next) (simp_all add: lmm_block_size_def)
  also have "\<dots> = Inr (?b0, Some True, \<lparr>f_lines = [], f_records = []\<rparr>, [])"
    using r2 by (intro block_loop_Eof) (simp_all add: lmm_block_size_def)
  finally have "load_var_block LMM demo_pre demo_md5 demo_b2a demo_fetch Rtab demo_p False []
       \<lparr>f_lines = [''v3 0 0 1 0'' @ [CHR 0x0A]], f_records = []\<rparr> (set (p_index demo_p))
       demo_order (1 / 100) (99 / 100) (1 / 10) True False lmm_block_size
     = Inr (([], [], (0, 0), True), \<lparr>f_lines = [], f_records = []\<rparr>, [])"
    by (simp add: load_var_block_def compact_replicate_zero)
  with r1 pre show ?thesis by (intro conjI)
qed


text \<open>
  C3, as stated, fails. A variant-call file whose only record has two alternate alleles:
  the read returns no indicator and is not end-of-stream, and the mixed-model run ends
  with one prefiltered variant, which the first diagnostic line reports as loaded.
\<close>

theorem malformed_record_counted:
  "read_variant demo_fetch \<lparr>f_lines = [], f_records = [demo_multiallelic]\<rparr> demo_p Vcf False []
       True (set (p_index demo_p)) []
     = Inr (NoIndicator, \<lparr>f_lines = [], f_records = []\<rparr>, [])
   \<and> association_lmm LMM demo_pre demo_md5 demo_b2a demo_fetch demo_fit True demo_format_lmm 1
       Vcf demo_p False (set (p_index demo_p)) [] (1 / 100) (99 / 100) 1 True False
       lmm_block_size \<lparr>f_lines = [], f_records = [demo_multiallelic]\<rparr> [] run0
     = Inr (run0\<lparr>n_prefilter := 1\<rparr>)
   \<and> loaded (run0\<lparr>n_prefilter := 1\<rparr>) = 1"
proof -
  let ?rd = "\<lambda>infile regions. read_variant demo_fetch infile demo_p Vcf False regions True
               (set (p_index demo_p)) []"
  let ?body = "block_body LMM demo_pre demo_md5 demo_b2a demo_p (1 / 100) (99 / 100) 1 False"
  let ?b0 = "\<lparr>b_prefilter = 0, b_variants = [],
              b_mat = replicate lmm_block_size (replicate (length demo_p) 0)\<rparr>"
  have r1: "?rd \<lparr>f_lines = [], f_records = [demo_multiallelic]\<rparr> []
            = Inr (NoIndicator, \<lparr>f_lines = [], f_records = []\<rparr>, [])"
    by code_simp
  have r2: "?rd \<lparr>f_lines = [], f_records = []\<rparr> [] = Inr (Eof, \<lparr>f_lines = [], f_records = []\<rparr>, [])"
    by code_simp
  have b1: "?body 0 NoIndicator ?b0 = Inr (?b0\<lparr>b_prefilter := 1\<rparr>)"
    by (simp add: block_body_def)
  have "block_loop ?rd ?body lmm_block_size 0 \<lparr>f_lines = [], f_records = [demo_multiallelic]\<rparr> []
          ?b0 None
        = block_loop ?rd ?body lmm_block_size (0 + 1) \<lparr>f_lines = [], f_records = []\<rparr> []
            (?b0\<lparr>b_prefilter := 1\<rparr>) (Some False)"
    using r1 b1 by (intro block_loop_next) (simp_all add: lmm_block_size_def)
  also have "\<dots> = Inr (?b0\<lparr>b_prefilter := 1\<rparr>, Some True, \<lparr>f_lines = [], f_records = []\<rparr>, [])"
    using r2 by (intro block_loop_Eof) (simp_all add: lmm_block_size_def)
  finally have "load_var_block LMM demo_pre demo_md5 demo_b2a demo_fetch Vcf demo_p False []
       \<lparr>f_lines = [], f_records = [demo_multiallelic]\<rparr> (set (p_index demo_p)) []
       (1 / 100) (99 / 100) 1 True False lmm_block_size
     = Inr (([], [], (1, 0), True), \<lparr>f_lines = [], f_records = []\<rparr>, [])"
    by (simp add: load_var_block_def compact_replicate_zero)
  then have run: "association_lmm LMM demo_pre demo_md5 demo_b2a demo_fetch demo_fit True
       demo_format_lmm 1
       Vcf demo_p False (set (p_index demo_p)) [] (1 / 100) (99 / 100) 1 True False
       lmm_block_size \<lparr>f_lines = [], f_records = [demo_multiallelic]\<rparr> [] run0
     = Inr (run0\<lparr>n_prefilter := 1\<rparr>)"
    by (simp add: association_lmm.simps [of LMM] run0_def)
  have "loaded (run0\<lparr>n_prefilter := 1\<rparr>) = 1" by (simp add: loaded_def run0_def)
  with r1 run show ?thesis by (intro conjI)
qed


text \<open>
  C3, amended. A read that returns no indicator without end-of-stream is never tested,
  fitted or printed, and the run goes on with the next record, but it is counted: the
  block body adds one to the prefilter count and the block loop continues behind it; the
  iterator of the fixed-effects path yields the tuple of \<^verbatim>\<open>None\<close> for it, the same as for a
  variant outside the frequency bounds, and the sequential loop hands that tuple to the
  worker and continues.
\<close>

theorem malformed_record_is_prefiltered:
  assumes rd: "read_variant fetch infile p vt burden regions uncompressed all_strains
                 sample_order = Inr (NoIndicator, infile', regions')"
  shows "block_body new_LMM pre_filtering md5 b2a_base64 p min_af max_af filter_pvalue
           is_continuous var_idx NoIndicator b
         = Inr (b\<lparr>b_prefilter := b_prefilter b + 1\<rparr>)
       \<and> (var_idx < block_size \<longrightarrow>
            block_loop
              (\<lambda>infile regions. read_variant fetch infile p vt burden regions uncompressed
                                  all_strains sample_order)
              (block_body new_LMM pre_filtering md5 b2a_base64 p min_af max_af filter_pvalue
                 is_continuous)
              block_size var_idx infile regions b eof
            = block_loop
                (\<lambda>infile regions. read_variant fetch infile p vt burden regions uncompressed
                                    all_strains sample_order)
                (block_body new_LMM pre_filtering md5 b2a_base64 p min_af max_af filter_pvalue
                   is_continuous)
                block_size (var_idx + 1) infile' regions'
                (b\<lparr>b_prefilter := b_prefilter b + 1\<rparr>) (Some False))
       \<and> iter_variants md5 b2a_base64 fetch p m c vt burden all_strains sample_order lineage_effects
           lineage_clusters min_af max_af filter_pvalue lrt_pvalue null_fit firth_null
           uncompressed is_continuous (Running infile regions)
         = Inr (Some None, Running infile' regions')
       \<and> fixed_sequential md5 b2a_base64 fetch p m c vt burden all_strains sample_order lineage_effects
           lineage_clusters min_af max_af filter_pvalue lrt_pvalue null_fit firth_null
           uncompressed is_continuous fixed_effects_regression output_patterns format_output
           (Running infile regions) r
         = fixed_sequential md5 b2a_base64 fetch p m c vt burden all_strains sample_order lineage_effects
           lineage_clusters min_af max_af filter_pvalue lrt_pvalue null_fit firth_null
           uncompressed is_continuous fixed_effects_regression output_patterns format_output
             (Running infile' regions')
             (collect output_patterns format_output (fixed_effects_regression None) r)"
proof -
  have body: "block_body new_LMM pre_filtering md5 b2a_base64 p min_af max_af filter_pvalue
           is_continuous var_idx NoIndicator b
         = Inr (b\<lparr>b_prefilter := b_prefilter b + 1\<rparr>)"
    by (simp add: block_body_def)
  have loop: "block_loop
              (\<lambda>infile regions. read_variant fetch infile p vt burden regions uncompressed
                                  all_strains sample_order)
              (block_body new_LMM pre_filtering md5 b2a_base64 p min_af max_af filter_pvalue
                 is_continuous)
              block_size var_idx infile regions b eof
            = block_loop
                (\<lambda>infile regions. read_variant fetch infile p vt burden regions uncompressed
                                    all_strains sample_order)
                (block_body new_LMM pre_filtering md5 b2a_base64 p min_af max_af filter_pvalue
                   is_continuous)
                block_size (var_idx + 1) infile' regions'
                (b\<lparr>b_prefilter := b_prefilter b + 1\<rparr>) (Some False)"
    if "var_idx < block_size"
    using that rd body by (intro block_loop_next) simp_all
  have it: "iter_variants md5 b2a_base64 fetch p m c vt burden all_strains sample_order lineage_effects
           lineage_clusters min_af max_af filter_pvalue lrt_pvalue null_fit firth_null
           uncompressed is_continuous (Running infile regions)
         = Inr (Some None, Running infile' regions')"
    by (simp add: iter_variants_def rd)
  have seq: "fixed_sequential md5 b2a_base64 fetch p m c vt burden all_strains sample_order lineage_effects
           lineage_clusters min_af max_af filter_pvalue lrt_pvalue null_fit firth_null
           uncompressed is_continuous fixed_effects_regression output_patterns format_output
           (Running infile regions) r
         = fixed_sequential md5 b2a_base64 fetch p m c vt burden all_strains sample_order lineage_effects
           lineage_clusters min_af max_af filter_pvalue lrt_pvalue null_fit firth_null
           uncompressed is_continuous fixed_effects_regression output_patterns format_output
             (Running infile' regions')
             (collect output_patterns format_output (fixed_effects_regression None) r)"
    by (subst fixed_sequential.simps) (simp add: it)
  from body loop it seq show ?thesis by blast
qed


theorem malformed_record_is_prefiltered_witness:
  "read_variant demo_fetch \<lparr>f_lines = [], f_records = [demo_multiallelic]\<rparr> demo_p Vcf False []
       True (set (p_index demo_p)) []
     = Inr (NoIndicator, \<lparr>f_lines = [], f_records = []\<rparr>, [])
   \<and> block_body LMM demo_pre demo_md5 demo_b2a demo_p (1 / 100) (99 / 100) 1 False 0 NoIndicator
       \<lparr>b_prefilter = 0, b_variants = [], b_mat = [[0, 0, 0, 0]]\<rparr>
     = Inr (\<lparr>b_prefilter = 0, b_variants = [], b_mat = [[0, 0, 0, 0]]\<rparr>
              \<lparr>b_prefilter := b_prefilter \<lparr>b_prefilter = 0, b_variants = [],
                                             b_mat = [[0, 0, 0, 0]]\<rparr> + 1\<rparr>)
   \<and> iter_variants demo_md5 demo_b2a demo_fetch demo_p [] [] Vcf False
       (set (p_index demo_p)) [] False None (1 / 100) (99 / 100) 1 (3 / 10) () ()
       True False (Running \<lparr>f_lines = [], f_records = [demo_multiallelic]\<rparr> [])
     = Inr (Some None :: (unit, unit) fe_args option option,
            Running \<lparr>f_lines = [], f_records = []\<rparr> [])"
proof -
  have rd: "read_variant demo_fetch \<lparr>f_lines = [], f_records = [demo_multiallelic]\<rparr> demo_p Vcf
       False [] True (set (p_index demo_p)) []
     = Inr (NoIndicator, \<lparr>f_lines = [], f_records = []\<rparr>, [])"
    by code_simp
  note t = malformed_record_is_prefiltered [OF rd, where new_LMM = LMM
      and pre_filtering = demo_pre and ?md5.0 = demo_md5 and ?b2a_base64.0 = demo_b2a
      and min_af = "1 / 100" and max_af = "99 / 100" and filter_pvalue = 1
      and is_continuous = False and var_idx = 0
      and b = "\<lparr>b_prefilter = 0, b_variants = [], b_mat = [[0, 0, 0, 0]]\<rparr>"
      and m = "[]" and c = "[]" and lineage_effects = False and lineage_clusters = None
      and lrt_pvalue = "3 / 10" and null_fit = "()" and firth_null = "()"]
  from t have c1: "block_body LMM demo_pre demo_md5 demo_b2a demo_p (1 / 100) (99 / 100) 1 False
       0 NoIndicator \<lparr>b_prefilter = 0, b_variants = [], b_mat = [[0, 0, 0, 0]]\<rparr>
     = Inr (\<lparr>b_prefilter = 0, b_variants = [], b_mat = [[0, 0, 0, 0]]\<rparr>
              \<lparr>b_prefilter := b_prefilter \<lparr>b_prefilter = 0, b_variants = [],
                                             b_mat = [[0, 0, 0, 0]]\<rparr> + 1\<rparr>)"
    by (rule conjunct1)
  from t have c3: "iter_variants demo_md5 demo_b2a demo_fetch demo_p [] [] Vcf False
       (set (p_index demo_p)) [] False None (1 / 100) (99 / 100) 1 (3 / 10) () ()
       True False (Running \<lparr>f_lines = [], f_records = [demo_multiallelic]\<rparr> [])
     = Inr (Some None :: (unit, unit) fe_args option option,
            Running \<lparr>f_lines = [], f_records = []\<rparr> [])"
    by blast
  from rd c1 c3 show ?thesis by (intro conjI)
qed

text \<open>
  C4. Both paths compare the allele frequency of a read with the closed interval from
  \<^verbatim>\<open>min_af\<close> to \<^verbatim>\<open>max_af\<close>. When the interval is not empty, a frequency equal to either bound
  is retained: the iterator yields the full tuple, and the block body goes on to the
  pre-test without counting the variant as prefiltered. A frequency below \<^verbatim>\<open>min_af\<close> or
  above \<^verbatim>\<open>max_af\<close>, by however little, is prefiltered: the iterator yields the tuple of
  \<^verbatim>\<open>None\<close>, and the block body adds one to the prefilter count.
\<close>

theorem af_filter_closed_interval:
  assumes rd: "read_variant fetch infile p vt burden regions uncompressed all_strains
                 sample_order = Inr (Variant k nm ks nks f, infile', regions')"
  shows "(min_af \<le> max_af \<and> (f = min_af \<or> f = max_af) \<longrightarrow>
            (\<exists>x. iter_variants md5 b2a_base64 fetch p m c vt burden all_strains sample_order lineage_effects
         lineage_clusters min_af max_af filter_pvalue lrt_pvalue null_fit firth_null
         uncompressed is_continuous (Running infile regions)
                  = Inr (Some (Some x), Running infile' regions')
                \<and> a_af x = f \<and> a_k x = k)
          \<and> block_body new_LMM pre_filtering md5 b2a_base64 p min_af max_af filter_pvalue
              is_continuous var_idx (Variant k nm ks nks f) b
            = (let prp = (if \<not> is_continuous then fst (pre_filtering p k is_continuous) else 0)
               in if prp < filter_pvalue
                  then (case new_LMM \<lparr>kmer = nm, pattern = hash_pattern md5 b2a_base64 k,
                                       af = f, prep = prp, pvalue = 0, kbeta = 0, bse = 0,
                                       frac_h2 = 0, max_lineage = None, kstrains = ks,
                                       nkstrains = nks\<rparr> of
                          Inl e \<Rightarrow> Inl e
                        | Inr v \<Rightarrow> Inr (b\<lparr>b_variants := b_variants b @ [v],
                                           b_mat := (b_mat b)[var_idx := k]\<rparr>))
                  else Inr b))
       \<and> (f < min_af \<or> max_af < f \<longrightarrow>
            iter_variants md5 b2a_base64 fetch p m c vt burden all_strains sample_order lineage_effects
         lineage_clusters min_af max_af filter_pvalue lrt_pvalue null_fit firth_null
         uncompressed is_continuous (Running infile regions)
            = Inr (Some None, Running infile' regions')
          \<and> block_body new_LMM pre_filtering md5 b2a_base64 p min_af max_af filter_pvalue
              is_continuous var_idx (Variant k nm ks nks f) b
            = Inr (b\<lparr>b_prefilter := b_prefilter b + 1\<rparr>))"
proof (intro conjI impI)
  assume b: "min_af \<le> max_af \<and> (f = min_af \<or> f = max_af)"
  then have inside: "min_af \<le> f" "f \<le> max_af" by auto
  from inside show "\<exists>x. iter_variants md5 b2a_base64 fetch p m c vt burden all_strains sample_order lineage_effects
         lineage_clusters min_af max_af filter_pvalue lrt_pvalue null_fit firth_null
         uncompressed is_continuous (Running infile regions)
                  = Inr (Some (Some x), Running infile' regions')
                \<and> a_af x = f \<and> a_k x = k"
    by (simp add: iter_variants_Variant [OF rd])
  from inside show "block_body new_LMM pre_filtering md5 b2a_base64 p min_af max_af filter_pvalue
              is_continuous var_idx (Variant k nm ks nks f) b
            = (let prp = (if \<not> is_continuous then fst (pre_filtering p k is_continuous) else 0)
               in if prp < filter_pvalue
                  then (case new_LMM \<lparr>kmer = nm, pattern = hash_pattern md5 b2a_base64 k,
                                       af = f, prep = prp, pvalue = 0, kbeta = 0, bse = 0,
                                       frac_h2 = 0, max_lineage = None, kstrains = ks,
                                       nkstrains = nks\<rparr> of
                          Inl e \<Rightarrow> Inl e
                        | Inr v \<Rightarrow> Inr (b\<lparr>b_variants := b_variants b @ [v],
                                           b_mat := (b_mat b)[var_idx := k]\<rparr>))
                  else Inr b)"
    by (rule block_body_inside)
next
  assume out: "f < min_af \<or> max_af < f"
  then have "\<not> (min_af \<le> f \<and> f \<le> max_af)" by auto
  then show "iter_variants md5 b2a_base64 fetch p m c vt burden all_strains sample_order lineage_effects
         lineage_clusters min_af max_af filter_pvalue lrt_pvalue null_fit firth_null
         uncompressed is_continuous (Running infile regions)
            = Inr (Some None, Running infile' regions')"
    by (simp add: iter_variants_Variant [OF rd])
  from out show "block_body new_LMM pre_filtering md5 b2a_base64 p min_af max_af filter_pvalue
              is_continuous var_idx (Variant k nm ks nks f) b
            = Inr (b\<lparr>b_prefilter := b_prefilter b + 1\<rparr>)"
    by (rule block_body_outside)
qed


theorem af_filter_closed_interval_witness:
  "read_variant demo_fetch \<lparr>f_lines = [''v3 0 0 1 0''], f_records = []\<rparr> demo_p Rtab False []
       True (set (p_index demo_p)) demo_order
     = Inr (Variant [0, 0, 1, 0] ''v3'' [''C''] [''A'', ''B'', ''D''] (1 / 4),
            \<lparr>f_lines = [], f_records = []\<rparr>, [])
   \<and> (1 / 4 :: real) \<le> 3 / 4
   \<and> (\<exists>x. iter_variants demo_md5 demo_b2a demo_fetch demo_p [] [] Rtab False
             (set (p_index demo_p)) demo_order False None (1 / 4) (3 / 4) 1 (3 / 10) () ()
             True False (Running \<lparr>f_lines = [''v3 0 0 1 0''], f_records = []\<rparr> [])
           = Inr (Some (Some x), Running \<lparr>f_lines = [], f_records = []\<rparr> [])
         \<and> a_af x = 1 / 4 \<and> a_k x = [0, 0, 1, 0])
   \<and> (1 / 4 :: real) < 1 / 2
   \<and> iter_variants demo_md5 demo_b2a demo_fetch demo_p [] [] Rtab False
         (set (p_index demo_p)) demo_order False None (1 / 2) (3 / 4) 1 (3 / 10) () ()
         True False (Running \<lparr>f_lines = [''v3 0 0 1 0''], f_records = []\<rparr> [])
       = Inr (Some None, Running \<lparr>f_lines = [], f_records = []\<rparr> [])"
proof -
  have rd: "read_variant demo_fetch \<lparr>f_lines = [''v3 0 0 1 0''], f_records = []\<rparr> demo_p Rtab
       False [] True (set (p_index demo_p)) demo_order
     = Inr (Variant [0, 0, 1, 0] ''v3'' [''C''] [''A'', ''B'', ''D''] (1 / 4),
            \<lparr>f_lines = [], f_records = []\<rparr>, [])"
    by code_simp
  have h1: "(1 / 4 :: real) \<le> 3 / 4 \<and> ((1 / 4 :: real) = 1 / 4 \<or> (1 / 4 :: real) = 3 / 4)"
    by simp
  have h2: "(1 / 4 :: real) < 1 / 2 \<or> (3 / 4 :: real) < 1 / 4" by simp
  note t1 = af_filter_closed_interval [OF rd, where min_af = "1 / 4" and max_af = "3 / 4"
      and ?md5.0 = demo_md5 and ?b2a_base64.0 = demo_b2a and m = "[]" and c = "[]"
      and lineage_effects = False and lineage_clusters = None and filter_pvalue = 1
      and lrt_pvalue = "3 / 10" and null_fit = "()" and firth_null = "()"
      and is_continuous = False]
  note t2 = af_filter_closed_interval [OF rd, where min_af = "1 / 2" and max_af = "3 / 4"
      and ?md5.0 = demo_md5 and ?b2a_base64.0 = demo_b2a and m = "[]" and c = "[]"
      and lineage_effects = False and lineage_clusters = None and filter_pvalue = 1
      and lrt_pvalue = "3 / 10" and null_fit = "()" and firth_null = "()"
      and is_continuous = False]
  from t1 h1 have c1: "\<exists>x. iter_variants demo_md5 demo_b2a demo_fetch demo_p [] [] Rtab False
             (set (p_index demo_p)) demo_order False None (1 / 4) (3 / 4) 1 (3 / 10) () ()
             True False (Running \<lparr>f_lines = [''v3 0 0 1 0''], f_records = []\<rparr> [])
           = Inr (Some (Some x), Running \<lparr>f_lines = [], f_records = []\<rparr> [])
         \<and> a_af x = 1 / 4 \<and> a_k x = [0, 0, 1, 0]"
    by blast
  from t2 h2 have c2: "iter_variants demo_md5 demo_b2a demo_fetch demo_p [] [] Rtab False
         (set (p_index demo_p)) demo_order False None (1 / 2) (3 / 4) 1 (3 / 10) () ()
         True False (Running \<lparr>f_lines = [''v3 0 0 1 0''], f_records = []\<rparr> [])
       = Inr (Some None, Running \<lparr>f_lines = [], f_records = []\<rparr> [])"
    by blast
  have "(1 / 4 :: real) \<le> 3 / 4" "(1 / 4 :: real) < 1 / 2" by simp_all
  with rd c1 c2 show ?thesis by (intro conjI)
qed



text \<open>
  C6, as stated, fails. A fitted result whose p-value equals the threshold is not
  printed: the printed count and the output stay as they were.
\<close>

theorem lmm_threshold_equal_not_printed:
  "pvalue ((demo_block ! 0)\<lparr>pvalue := 1 / 20\<rparr>) = 1 / 20
   \<and> collect_lmm False demo_format_lmm (1 / 20) ((demo_block ! 0)\<lparr>pvalue := 1 / 20\<rparr>) run0 = run0
   \<and> n_printed run0 = 0"
  by (simp add: collect_lmm_def run0_def)


text \<open>
  C6, amended. In the mixed-model path a fitted result is printed exactly when its
  p-value is strictly below the threshold of \<^verbatim>\<open>--lrt-pvalue\<close>; it is left out, counted as
  tested only, exactly when its p-value is at or above the threshold.
\<close>

theorem lmm_printed_iff_below_threshold:
  "(n_printed (collect_lmm output_patterns format_output lrt_pvalue variant r) = n_printed r + 1)
     = (pvalue variant < lrt_pvalue)
   \<and> (n_printed (collect_lmm output_patterns format_output lrt_pvalue variant r) = n_printed r)
     = (lrt_pvalue \<le> pvalue variant)
   \<and> stdout (collect_lmm output_patterns format_output lrt_pvalue variant r)
     = stdout r @ (if pvalue variant < lrt_pvalue then [format_output variant] else [])
   \<and> n_tested (collect_lmm output_patterns format_output lrt_pvalue variant r) = n_tested r
   \<and> n_prefilter (collect_lmm output_patterns format_output lrt_pvalue variant r) = n_prefilter r"
  by (auto simp: collect_lmm_def Let_def)


theorem lmm_printed_iff_below_threshold_witness:
  "n_printed (collect_lmm True demo_format_lmm (1 / 20) ((demo_block ! 0)\<lparr>pvalue := 1 / 100\<rparr>)
      run0) = n_printed run0 + 1
   \<and> n_printed (collect_lmm True demo_format_lmm (1 / 20) ((demo_block ! 0)\<lparr>pvalue := 1 / 20\<rparr>)
      run0) = n_printed run0"
proof -
  have a: "pvalue ((demo_block ! 0)\<lparr>pvalue := 1 / 100\<rparr>) < 1 / 20" by simp
  have b: "(1 / 20 :: real) \<le> pvalue ((demo_block ! 0)\<lparr>pvalue := 1 / 20\<rparr>)" by simp
  from lmm_printed_iff_below_threshold [of True demo_format_lmm "1 / 20"
      "(demo_block ! 0)\<lparr>pvalue := 1 / 100\<rparr>" run0] a
  have c1: "n_printed (collect_lmm True demo_format_lmm (1 / 20)
      ((demo_block ! 0)\<lparr>pvalue := 1 / 100\<rparr>) run0) = n_printed run0 + 1"
    by blast
  from lmm_printed_iff_below_threshold [of True demo_format_lmm "1 / 20"
      "(demo_block ! 0)\<lparr>pvalue := 1 / 20\<rparr>" run0] b
  have c2: "n_printed (collect_lmm True demo_format_lmm (1 / 20)
      ((demo_block ! 0)\<lparr>pvalue := 1 / 20\<rparr>) run0) = n_printed run0"
    by blast
  from c1 c2 show ?thesis by (intro conjI)
qed

text \<open>
  C7. When the options ask for the mixed model with more than one process, \<^verbatim>\<open>main\<close> writes
  a message to the error stream and exits with status 1, and it does so before the call
  of \<^verbatim>\<open>load_phenotypes\<close>, the first statement that reads input.
\<close>

theorem lmm_with_workers_rejected:
  assumes "1 < o_cpu options" and "o_lmm options"
  shows "(\<exists>msg. main_start py_major options = [Write_stderr msg, Sys_exit 1])
       \<and> Load_phenotypes file col \<notin> set (main_start py_major options)"
  using assms by (auto simp: main_start_def)

theorem lmm_with_workers_rejected_witness:
  "1 < o_cpu demo_options \<and> o_lmm demo_options
   \<and> main_start 3 demo_options
     = [Write_stderr (''LMM does not currently support >1 core'' @ [CHR 0x0A]
                      @ ''Consider splitting your input file ''
                      @ ''or running with 1 core.'' @ [CHR 0x0A]),
        Sys_exit 1]
   \<and> Load_phenotypes ''phenotypes.tsv'' None \<notin> set (main_start 3 demo_options)"
proof -
  have h1: "1 < o_cpu demo_options" and h2: "o_lmm demo_options"
    by (simp_all add: demo_options_def)
  have v: "main_start 3 demo_options
     = [Write_stderr (''LMM does not currently support >1 core'' @ [CHR 0x0A]
                      @ ''Consider splitting your input file ''
                      @ ''or running with 1 core.'' @ [CHR 0x0A]),
        Sys_exit 1]"
    by code_simp
  from lmm_with_workers_rejected [OF h1 h2]
  have "Load_phenotypes ''phenotypes.tsv'' None \<notin> set (main_start 3 demo_options)"
    by (rule conjunct2)
  with h1 h2 v show ?thesis by (intro conjI)
qed


text \<open>
  C8. In burden mode, a region descriptor that the pattern matches and whose interval
  holds no call record gives a read that is neither end-of-stream nor without indicator:
  the indicator is zero for every sample, the presence list is empty and the allele
  frequency is 0. The iterator of the fixed-effects path yields for it and goes on, and
  the block loader with \<^verbatim>\<open>min_af > 0\<close> counts it as prefiltered; neither raises. The
  phenotype has at least one sample (the frequency divides by their number).
\<close>

theorem burden_empty_region:
  assumes "parse_region region = Some (g1, g2, g3)"
    and "fetch g1 (g2 - 1) g3 = []"
    and "p \<noteq> []"
  shows "read_variant fetch infile p Vcf True ((var_name, region) # rest) uncompressed
           (set (p_index p)) sample_order
         = Inr (Variant (replicate (length p) 0) var_name []
                  (sorted_list_of_set (set (p_index p))) 0, infile, rest)
       \<and> (\<exists>y. iter_variants md5 b2a_base64 fetch p m c Vcf True (set (p_index p)) sample_order
                 lineage_effects lineage_clusters min_af max_af filter_pvalue lrt_pvalue
                 null_fit firth_null uncompressed is_continuous
                 (Running infile ((var_name, region) # rest))
               = Inr (Some y, Running infile rest))
       \<and> (0 < min_af \<longrightarrow>
            block_body new_LMM pre_filtering md5 b2a_base64 p min_af max_af filter_pvalue
              is_continuous var_idx
              (Variant (replicate (length p) 0) var_name []
                 (sorted_list_of_set (set (p_index p))) 0) b
            = Inr (b\<lparr>b_prefilter := b_prefilter b + 1\<rparr>))"
proof -
  have rd: "read_variant fetch infile p Vcf True ((var_name, region) # rest) uncompressed
           (set (p_index p)) sample_order
         = Inr (Variant (replicate (length p) 0) var_name []
                  (sorted_list_of_set (set (p_index p))) 0, infile, rest)"
    using assms by (simp add: read_variant_def finish_variant_empty)
  then have "\<exists>y. iter_variants md5 b2a_base64 fetch p m c Vcf True (set (p_index p)) sample_order
                 lineage_effects lineage_clusters min_af max_af filter_pvalue lrt_pvalue
                 null_fit firth_null uncompressed is_continuous
                 (Running infile ((var_name, region) # rest))
               = Inr (Some y, Running infile rest)"
    by (simp add: iter_variants_def)
  with rd show ?thesis
    by (simp add: block_body_def)
qed


theorem burden_empty_region_witness:
  "parse_region ''chr1:10-200'' = Some (''chr1'', 10, 200)
   \<and> demo_fetch ''chr1'' (10 - 1) 200 = []
   \<and> demo_p \<noteq> []
   \<and> read_variant demo_fetch \<lparr>f_lines = [], f_records = []\<rparr> demo_p Vcf True
       [(''gene1'', ''chr1:10-200'')] True (set (p_index demo_p)) []
     = Inr (Variant [0, 0, 0, 0] ''gene1'' [] [''A'', ''B'', ''C'', ''D''] 0,
            \<lparr>f_lines = [], f_records = []\<rparr>, [])"
proof -
  have h1: "parse_region ''chr1:10-200'' = Some (''chr1'', 10, 200)" by code_simp
  have h2: "demo_fetch ''chr1'' (10 - 1) 200 = []" by (simp add: demo_fetch_def)
  have h3: "demo_p \<noteq> []" by (simp add: demo_p_def)
  have v: "Variant (replicate (length demo_p) 0) ''gene1'' []
             (sorted_list_of_set (set (p_index demo_p))) 0
           = Variant [0, 0, 0, 0] ''gene1'' [] [''A'', ''B'', ''C'', ''D''] 0"
    by code_simp
  from burden_empty_region [where fetch = demo_fetch and ?g1.0 = "''chr1''" and ?g2.0 = 10
      and ?g3.0 = 200, OF h1 h2 h3]
  have "read_variant demo_fetch \<lparr>f_lines = [], f_records = []\<rparr> demo_p Vcf True
       [(''gene1'', ''chr1:10-200'')] True (set (p_index demo_p)) []
     = Inr (Variant (replicate (length demo_p) 0) ''gene1'' []
             (sorted_list_of_set (set (p_index demo_p))) 0,
            \<lparr>f_lines = [], f_records = []\<rparr>, [])"
    by (rule conjunct1)
  with v have "read_variant demo_fetch \<lparr>f_lines = [], f_records = []\<rparr> demo_p Vcf True
       [(''gene1'', ''chr1:10-200'')] True (set (p_index demo_p)) []
     = Inr (Variant [0, 0, 0, 0] ''gene1'' [] [''A'', ''B'', ''C'', ''D''] 0,
            \<lparr>f_lines = [], f_records = []\<rparr>, [])"
    by simp
  with h1 h2 h3 show ?thesis by (intro conjI)
qed

text \<open>
  C9. The pattern that the iterator attaches to a variant is \<^verbatim>\<open>hash_pattern\<close> of its
  indicator vector and of nothing else. Two variants, read from any two formats over the
  same phenotype, have equal patterns when their indicator vectors are equal, and their
  indicator vectors are equal when the same samples are present.
\<close>

theorem pattern_hash_format_independent:
  assumes "iter_variants md5 b2a_base64 fetch p m c vt burden (set (p_index p)) sample_order
             lineage_effects lineage_clusters min_af max_af filter_pvalue lrt_pvalue null_fit
             firth_null uncompressed is_continuous g = Inr (Some (Some x), g')"
    and "iter_variants md5 b2a_base64 fetch2 p m2 c2 vt2 burden2 (set (p_index p)) sample_order2
             lineage_effects2 lineage_clusters2 min_af2 max_af2 filter_pvalue2 lrt_pvalue2
             null_fit2 firth_null2 uncompressed2 is_continuous2 g2 = Inr (Some (Some y), g2')"
  shows "a_pattern x = hash_pattern md5 b2a_base64 (a_k x)
       \<and> a_pattern y = hash_pattern md5 b2a_base64 (a_k y)
       \<and> (a_k x = a_k y \<longrightarrow> a_pattern x = a_pattern y)
       \<and> (set (a_kstrains x) = set (a_kstrains y) \<longrightarrow>
            a_k x = a_k y \<and> a_pattern x = a_pattern y)"
proof -
  note px = iter_variants_yield_post [OF assms(1)]
  note py = iter_variants_yield_post [OF assms(2)]
  have ind: "indicator p ks = indicator p ks'" if "set ks = set ks'" for ks ks'
    using that by (simp add: indicator_def)
  from px py ind [of "a_kstrains x" "a_kstrains y"] show ?thesis by auto
qed


theorem pattern_hash_format_independent_witness:
  "iter_variants demo_md5 demo_b2a demo_fetch demo_p [] [] Kmers False
       (set (p_index demo_p)) [] False None (1 / 100) (99 / 100) 1 (3 / 10) () ()
       False False (Running demo_kmers [])
     = Inr (Some (Some (demo_yield ''ACGT'' [1, 0, 1, 0] [''A'', ''C''] [''B'', ''D''] (1 / 2))),
            Running \<lparr>f_lines = [], f_records = []\<rparr> [])
   \<and> iter_variants demo_md5 demo_b2a demo_fetch demo_p [] [] Rtab False
       (set (p_index demo_p)) demo_order False None (1 / 100) (99 / 100) 1 (3 / 10) () ()
       True False (Running \<lparr>f_lines = [''v1 1 0 1 0''], f_records = []\<rparr> [])
     = Inr (Some (Some (demo_yield ''v1'' [1, 0, 1, 0] [''A'', ''C''] [''B'', ''D''] (1 / 2))),
            Running \<lparr>f_lines = [], f_records = []\<rparr> [])
   \<and> a_pattern (demo_yield ''ACGT'' [1, 0, 1, 0] [''A'', ''C''] [''B'', ''D''] (1 / 2))
     = a_pattern (demo_yield ''v1'' [1, 0, 1, 0] [''A'', ''C''] [''B'', ''D''] (1 / 2))"
proof -
  have k: "iter_variants demo_md5 demo_b2a demo_fetch demo_p [] [] Kmers False
       (set (p_index demo_p)) [] False None (1 / 100) (99 / 100) 1 (3 / 10) () ()
       False False (Running demo_kmers [])
     = Inr (Some (Some (demo_yield ''ACGT'' [1, 0, 1, 0] [''A'', ''C''] [''B'', ''D''] (1 / 2))),
            Running \<lparr>f_lines = [], f_records = []\<rparr> [])"
    by code_simp
  have r: "iter_variants demo_md5 demo_b2a demo_fetch demo_p [] [] Rtab False
       (set (p_index demo_p)) demo_order False None (1 / 100) (99 / 100) 1 (3 / 10) () ()
       True False (Running \<lparr>f_lines = [''v1 1 0 1 0''], f_records = []\<rparr> [])
     = Inr (Some (Some (demo_yield ''v1'' [1, 0, 1, 0] [''A'', ''C''] [''B'', ''D''] (1 / 2))),
            Running \<lparr>f_lines = [], f_records = []\<rparr> [])"
    by code_simp
  have same: "set (a_kstrains (demo_yield ''ACGT'' [1, 0, 1, 0] [''A'', ''C''] [''B'', ''D''] (1 / 2)))
      = set (a_kstrains (demo_yield ''v1'' [1, 0, 1, 0] [''A'', ''C''] [''B'', ''D''] (1 / 2)))"
    by (simp add: demo_yield_def)
  from pattern_hash_format_independent [OF k r] same
  have "a_pattern (demo_yield ''ACGT'' [1, 0, 1, 0] [''A'', ''C''] [''B'', ''D''] (1 / 2))
     = a_pattern (demo_yield ''v1'' [1, 0, 1, 0] [''A'', ''C''] [''B'', ''D''] (1 / 2))"
    by blast
  with k r show ?thesis by (intro conjI)
qed

text \<open>
  C10, on the code. A presence/absence table whose first variant is present in two of
  four samples, with \<^verbatim>\<open>min_af\<close> 0.01, \<^verbatim>\<open>max_af\<close> 0.99 and a pre-test p-value of one percent
  against a threshold of 1: the variant passes the frequency bounds and the pre-test, and
  the call of the record constructor with eleven of its fourteen fields raises
  TypeError. \<^verbatim>\<open>load_var_block\<close> returns neither a record nor a matrix.
\<close>

theorem admitted_variant_raises:
  "read_variant demo_fetch demo_rtab demo_p Rtab False [] True (set (p_index demo_p)) demo_order
     = Inr (Variant [1, 0, 1, 0] ''v1'' [''A'', ''C''] [''B'', ''D''] (1 / 2),
            \<lparr>f_lines = [''v2 1 1 1 1'' @ [CHR 0x0A], ''v3 0 0 1 0'' @ [CHR 0x0A]],
             f_records = []\<rparr>, [])
   \<and> (0 :: real) < 1 / 100
   \<and> fst (demo_pre demo_p [1, 0, 1, 0] False) = 1 / 100
   \<and> load_var_block LMM demo_pre demo_md5 demo_b2a demo_fetch Rtab demo_p False [] demo_rtab
       (set (p_index demo_p)) demo_order (1 / 100) (99 / 100) 1 True False lmm_block_size
     = Inl TypeError"
proof -
  let ?rd = "\<lambda>infile regions. read_variant demo_fetch infile demo_p Rtab False regions True
               (set (p_index demo_p)) demo_order"
  let ?body = "block_body LMM demo_pre demo_md5 demo_b2a demo_p (1 / 100) (99 / 100) 1 False"
  let ?b0 = "\<lparr>b_prefilter = 0, b_variants = [],
              b_mat = replicate lmm_block_size (replicate (length demo_p) 0)\<rparr>"
  have r1: "?rd demo_rtab []
     = Inr (Variant [1, 0, 1, 0] ''v1'' [''A'', ''C''] [''B'', ''D''] (1 / 2),
            \<lparr>f_lines = [''v2 1 1 1 1'' @ [CHR 0x0A], ''v3 0 0 1 0'' @ [CHR 0x0A]],
             f_records = []\<rparr>, [])"
    by code_simp
  have pre: "fst (demo_pre demo_p [1, 0, 1, 0] False) = 1 / 100"
    by (simp add: demo_pre_def)
  have b1: "?body 0 (Variant [1, 0, 1, 0] ''v1'' [''A'', ''C''] [''B'', ''D''] (1 / 2)) ?b0
            = Inl TypeError"
    by (simp add: block_body_def pre LMM_def)
  have pos: "0 < lmm_block_size" by (simp add: lmm_block_size_def)
  have "block_loop ?rd ?body lmm_block_size 0 demo_rtab [] ?b0 None = Inl TypeError"
    using r1 b1 pos by (subst block_loop.simps) simp
  then have run: "load_var_block LMM demo_pre demo_md5 demo_b2a demo_fetch Rtab demo_p False []
       demo_rtab (set (p_index demo_p)) demo_order (1 / 100) (99 / 100) 1 True False
       lmm_block_size
     = Inl TypeError"
    by (simp add: load_var_block_def)
  have "(0 :: real) < 1 / 100" by simp
  with r1 pre run show ?thesis by (intro conjI)
qed

end
